theory Spec2Isabelle
  imports Complex_Main
begin

section \<open>Safar Sathi: the real-time tracking hub (sockets/locationSocket.js)\<close>

text \<open>
  The hub is a set of Socket.IO event handlers working on three pieces of state: the
  connection (\<open>socket\<close>), the Catalog Store (PostgreSQL, reached through \<open>pool.query\<close>) and
  the Session Store (Redis, reached through \<open>redisUtils\<close>). The embedding passes that state
  explicitly: every handler is a function from the hub state to the hub state, and
  everything it sends (\<open>socket.emit\<close>, \<open>socket.to(room).emit\<close>) is appended to a log.

  Conventions of the embedding.
  \<^item> JavaScript numbers are IEEE doubles; they are idealised as \<^typ>\<open>real\<close>. Payloads arrive
    as JSON, so a numeric field is absent (\<open>undefined\<close>), \<open>null\<close> or a number; \<open>NaN\<close> cannot
    arrive and only appears as the result of arithmetic on \<open>undefined\<close> (\<open>None\<close> below).
    A number that reaches a query is read by the server from its decimal text, which
    under this idealisation denotes the number itself.
  \<^item> A table is the list of its rows, each statement of the source is a function on those
    lists, and a result set without \<open>ORDER BY\<close> is read in table order. Columns the hub
    never reads or writes (\<open>created_at\<close>, \<open>updated_at\<close>, generated row ids of the
    append-only tables) are left out; status columns and \<open>total_trips\<close>, which have a
    default and are never set to \<open>NULL\<close> by the repository, are taken non-null.
  \<^item> Three things raise inside the \<open>try\<close> blocks of the handlers: destructuring a payload
    that was not sent (\<open>None\<close> below); a parameter its column does not take (a fraction
    or a number beyond 32 bits for \<open>INTEGER\<close>, a number beyond the precision of a
    \<open>DECIMAL\<close>, a date the store does not accept, \<open>total_trips + 1\<close> beyond 32 bits); and
    an \<open>INSERT\<close> that violates a foreign key. Column types and keys are those of
    migrations/001\_initial\_schema.sql. All end in the \<open>catch\<close> block of the handler.
    Loss of the connection to either store is outside the embedding, and so is what
    PostGIS does with a point outside the range of longitude and latitude.
  \<^item> A handler runs to completion on the state it is given; the interleaving of handlers
    that are suspended on a store call is outside the embedding. The listeners of a
    connection are only tested for membership, so the order of registration is immaterial.
  \<^item> \<open>NOW()\<close> and \<open>new Date()\<close> read one clock, passed to each handler as \<open>now\<close>.
\<close>

subsection \<open>JavaScript values\<close>

datatype jsnum = NUndefined | NNull | Num real

datatype jsid = Undefined | Null | Id string

text \<open>Truthiness, as tested by \<open>!x\<close>, \<open>x || y\<close> and \<open>if (x)\<close>.\<close>

fun truthy_num :: "jsnum \<Rightarrow> bool" where
  "truthy_num (Num r) = (r \<noteq> 0)"
| "truthy_num NUndefined = False"
| "truthy_num NNull = False"

fun truthy_id :: "jsid \<Rightarrow> bool" where
  "truthy_id (Id s) = (s \<noteq> [])"
| "truthy_id Undefined = False"
| "truthy_id Null = False"

text \<open>\<open>x || null\<close> and \<open>x || 0\<close>.\<close>

definition or_null :: "jsnum \<Rightarrow> jsnum" where
  "or_null x = (if truthy_num x then x else NNull)"

definition or_zero :: "jsnum \<Rightarrow> jsnum" where
  "or_zero x = (if truthy_num x then x else Num 0)"

text \<open>A value bound to a query parameter: \<open>undefined\<close> and \<open>null\<close> are sent as \<open>NULL\<close>.\<close>

fun sql_num :: "jsnum \<Rightarrow> real option" where
  "sql_num (Num r) = Some r"
| "sql_num NUndefined = None"
| "sql_num NNull = None"

fun sql_id :: "jsid \<Rightarrow> string option" where
  "sql_id (Id s) = Some s"
| "sql_id Undefined = None"
| "sql_id Null = None"

text \<open>A value interpolated into a template string (room names, Redis keys).\<close>

fun render_id :: "jsid \<Rightarrow> string" where
  "render_id (Id s) = s"
| "render_id Undefined = ''undefined''"
| "render_id Null = ''null''"

text \<open>\<open>ToNumber\<close>, applied by the arithmetic operators; \<open>None\<close> is \<open>NaN\<close>.\<close>

fun to_number :: "jsnum \<Rightarrow> real option" where
  "to_number (Num r) = Some r"
| "to_number NNull = Some 0"
| "to_number NUndefined = None"

text \<open>\<open>Math.round\<close>: the nearest integer, a tie going up.\<close>

definition Math_round :: "real \<Rightarrow> int" where
  "Math_round x = \<lfloor>x + 1 / 2\<rfloor>"

text \<open>\<open>Math.atan2(y, x)\<close> on the reals.\<close>

definition Math_atan2 :: "real \<Rightarrow> real \<Rightarrow> real" where
  "Math_atan2 y x =
     (if 0 < x then arctan (y / x)
      else if x < 0 then (if 0 \<le> y then arctan (y / x) + pi else arctan (y / x) - pi)
      else if 0 < y then pi / 2
      else if y < 0 then - (pi / 2)
      else 0)"

subsection \<open>Geo Distance Function\<close>

definition calculateDistance :: "real \<Rightarrow> real \<Rightarrow> real \<Rightarrow> real \<Rightarrow> real" where
  "calculateDistance lat1 lon1 lat2 lon2 =
     (let R = 6371;
          dLat = (lat2 - lat1) * pi / 180;
          dLon = (lon2 - lon1) * pi / 180;
          a = sin (dLat / 2) * sin (dLat / 2) +
              cos (lat1 * pi / 180) * cos (lat2 * pi / 180) *
              sin (dLon / 2) * sin (dLon / 2);
          c = 2 * Math_atan2 (sqrt a) (sqrt (1 - a))
      in R * c)"

text \<open>
  The spec's words, for comparison with the code: the haversine great-circle distance on a
  sphere of radius 6371 km, \<open>2 R arcsin (sqrt (hav \<Delta>\<phi> + cos \<phi>\<^sub>1 cos \<phi>\<^sub>2 hav \<Delta>\<lambda>))\<close> with
  \<open>hav \<theta> = sin\<^sup>2 (\<theta> / 2)\<close> and the angles in radians.
\<close>

definition radians :: "real \<Rightarrow> real" where
  "radians deg = deg * pi / 180"

definition hav :: "real \<Rightarrow> real" where
  "hav \<theta> = (sin (\<theta> / 2))\<^sup>2"

definition spec_haversine_km :: "real \<Rightarrow> real \<Rightarrow> real \<Rightarrow> real \<Rightarrow> real" where
  "spec_haversine_km lat1 lon1 lat2 lon2 =
     2 * 6371 * arcsin (sqrt (hav (radians lat2 - radians lat1) +
                              cos (radians lat1) * cos (radians lat2) *
                              hav (radians lon2 - radians lon1)))"

subsection \<open>Catalog Store: the tables of migrations/001\_initial\_schema.sql\<close>

record driver =
  d_id :: string
  d_user_id :: string
  d_status :: string
  d_total_trips :: int

record vehicle =
  v_id :: string
  v_registration_number :: string
  v_assigned_driver_id :: "string option"

record trip =
  t_id :: string
  t_vehicle_id :: string
  t_driver_id :: string
  t_route_id :: string
  t_status :: string
  t_actual_start_time :: "nat option"
  t_actual_end_time :: "nat option"
  t_passenger_count :: "int option"
  t_distance_covered :: "real option"

record route_stop =
  rs_route_id :: string
  rs_bus_stop_id :: string
  rs_stop_order :: int

record bus_stop =
  bs_id :: string
  bs_name :: string
  bs_longitude :: real
  bs_latitude :: real

record trip_stop =
  ts_trip_id :: string
  ts_bus_stop_id :: string
  ts_actual_arrival :: "nat option"
  ts_actual_departure :: "nat option"
  ts_passengers_boarded :: "int option"
  ts_passengers_alighted :: "int option"

text \<open>
  The fix timestamp: \<open>timestamp ? new Date(timestamp) : new Date()\<close> in the durable row,
  \<open>timestamp || new Date().toISOString()\<close> in the cache. The client sends an ISO string
  or a number of milliseconds.
\<close>

datatype jsstamp = SUndefined | SNull | SNum real | SStr string

datatype fixtime = ClientTime jsstamp | ServerTime nat

record vehicle_location =
  vl_vehicle_id :: string
  vl_trip_id :: "string option"
  vl_location :: "jsnum \<times> jsnum"
  vl_speed :: "real option"
  vl_heading :: "int option"
  vl_accuracy :: "real option"
  vl_timestamp :: fixtime

record catalog =
  drivers :: "driver list"
  vehicles :: "vehicle list"
  trips :: "trip list"
  route_stops :: "route_stop list"
  bus_stops :: "bus_stop list"
  trip_stops :: "trip_stop list"
  vehicle_locations :: "vehicle_location list"

datatype store_error =
    ForeignKeyViolation
  | InvalidTextRepresentation
  | NumericValueOutOfRange
  | InvalidDatetimeFormat

definition bind_store :: "store_error + 'a \<Rightarrow> ('a \<Rightarrow> store_error + 'b) \<Rightarrow> store_error + 'b" where
  "bind_store m f = (case m of Inl err \<Rightarrow> Inl err | Inr v \<Rightarrow> f v)"

subsection \<open>Column types\<close>

text \<open>
  The driver binds a number as its decimal text and the server reads that text in the type
  of the column. An \<open>INTEGER\<close> takes whole numbers of 32 bits and nothing else.
\<close>

definition is_int4 :: "real \<Rightarrow> bool" where
  "is_int4 r = (real_of_int \<lfloor>r\<rfloor> = r \<and> - 2147483648 \<le> \<lfloor>r\<rfloor> \<and> \<lfloor>r\<rfloor> \<le> 2147483647)"

definition to_integer :: "real option \<Rightarrow> store_error + int option" where
  "to_integer v =
     (case v of
        None \<Rightarrow> Inr None
      | Some r \<Rightarrow>
          if real_of_int \<lfloor>r\<rfloor> \<noteq> r then Inl InvalidTextRepresentation
          else if \<lfloor>r\<rfloor> < - 2147483648 \<or> 2147483647 < \<lfloor>r\<rfloor> then Inl NumericValueOutOfRange
          else Inr (Some \<lfloor>r\<rfloor>))"

text \<open>
  A \<open>DECIMAL(p, s)\<close> rounds to \<open>s\<close> decimal places, a tie going away from zero, and
  raises when the result needs more than \<open>p - s\<close> digits before the point.
\<close>

definition round_half_away :: "real \<Rightarrow> int" where
  "round_half_away x = (if 0 \<le> x then \<lfloor>x + 1 / 2\<rfloor> else - \<lfloor>- x + 1 / 2\<rfloor>)"

definition to_scale :: "nat \<Rightarrow> real \<Rightarrow> real" where
  "to_scale s r = real_of_int (round_half_away (r * 10 ^ s)) / 10 ^ s"

definition numeric_fits :: "nat \<Rightarrow> nat \<Rightarrow> real \<Rightarrow> bool" where
  "numeric_fits p s r = (\<bar>to_scale s r\<bar> < 10 ^ (p - s))"

definition to_numeric :: "nat \<Rightarrow> nat \<Rightarrow> real option \<Rightarrow> store_error + real option" where
  "to_numeric p s v =
     (case v of
        None \<Rightarrow> Inr None
      | Some r \<Rightarrow>
          if numeric_fits p s r then Inr (Some (to_scale s r)) else Inl NumericValueOutOfRange)"

text \<open>
  A \<open>TIMESTAMP WITH TIME ZONE\<close> receives \<open>new Date(timestamp)\<close> as the driver renders it.
  A number beyond 8.64e15 milliseconds is an \<open>Invalid Date\<close> and is refused. What else is
  refused depends on the date parser of the JavaScript engine, on the driver and on the
  time zone of the server, none of which is part of the repository: it is the parameter
  \<open>stores_date\<close>. The server's own clock is always accepted.
\<close>

fun date_accepted :: "(jsstamp \<Rightarrow> bool) \<Rightarrow> fixtime \<Rightarrow> bool" where
  "date_accepted stores_date (ServerTime now) = True"
| "date_accepted stores_date (ClientTime (SNum r)) =
     (\<bar>r\<bar> \<le> 8640000000000000 \<and> stores_date (SNum r))"
| "date_accepted stores_date (ClientTime v) = stores_date v"

subsection \<open>Session Store and outbound events\<close>

record cache_data =
  cd_vehicleId :: jsid
  cd_tripId :: jsid
  cd_latitude :: jsnum
  cd_longitude :: jsnum
  cd_speed :: jsnum
  cd_heading :: jsnum
  cd_accuracy :: jsnum
  cd_timestamp :: fixtime
  cd_driverId :: jsid

text \<open>
  What \<open>redis.setex\<close> stores under a key, before \<open>JSON.stringify\<close>:
  the driver session \<open>{socketId, vehicleId, tripId, status, connectedAt}\<close>, the cached
  location, the cached ETA \<open>{eta, calculatedAt}\<close> and the active-trip snapshot
  \<open>{...trip, startedAt}\<close>.
\<close>

datatype redis_value =
    DriverSession string jsid jsid string nat
  | CachedLocation cache_data
  | CachedETA "int option" nat
  | ActiveTrip trip nat

record eta_update_entry =
  eu_stopId :: string
  eu_stopName :: string
  eu_eta :: "int option"
  eu_distance :: "real option"

datatype target = ToSelf | ToRoom string

datatype event =
    ErrorEvent string
  | Driver_status jsid jsid "string option" jsid "string option" string
  | Location_update cache_data
  | Route_vehicle_update string cache_data
  | Vehicle_location_update cache_data
  | Trip_started jsid "nat option"
  | Trip_status_update jsid jsid string "nat option"
  | Trip_ended jsid "nat option" "int option" "real option"
  | Passenger_count_update jsid jsid jsnum jsid
  | Eta_update jsid jsid "eta_update_entry list"

subsection \<open>Connection and hub state\<close>

record socket =
  sock_id :: string
  userId :: jsid
  userRole :: string
  driverId :: jsid
  vehicleId :: jsid
  tripId :: jsid
  rooms :: "string list"
  listeners :: "string list"

record hub =
  sock :: socket
  db :: catalog
  redis_kv :: "string \<Rightarrow> (nat \<times> redis_value) option"
  published :: "(string \<times> cache_data) list"
  emitted :: "(target \<times> event) list"

definition emit :: "target \<Rightarrow> event \<Rightarrow> hub \<Rightarrow> hub" where
  "emit tg ev h = h\<lparr>emitted := emitted h @ [(tg, ev)]\<rparr>"

definition join :: "string \<Rightarrow> hub \<Rightarrow> hub" where
  "join room h = h\<lparr>sock := (sock h)\<lparr>rooms := List.insert room (rooms (sock h))\<rparr>\<rparr>"

definition leave :: "string \<Rightarrow> hub \<Rightarrow> hub" where
  "leave room h = h\<lparr>sock := (sock h)\<lparr>rooms := removeAll room (rooms (sock h))\<rparr>\<rparr>"

definition on :: "string \<Rightarrow> hub \<Rightarrow> hub" where
  "on name h = h\<lparr>sock := (sock h)\<lparr>listeners := listeners (sock h) @ [name]\<rparr>\<rparr>"

subsection \<open>redisUtils (config/redis.js)\<close>

definition setex :: "string \<Rightarrow> nat \<Rightarrow> redis_value \<Rightarrow> hub \<Rightarrow> hub" where
  "setex key ttl v h = h\<lparr>redis_kv := (redis_kv h)(key \<mapsto> (ttl, v))\<rparr>"

definition del :: "string \<Rightarrow> hub \<Rightarrow> hub" where
  "del key h = h\<lparr>redis_kv := (redis_kv h)(key := None)\<rparr>"

definition driver_session_key :: "jsid \<Rightarrow> string" where
  "driver_session_key driverId' = ''driver:session:'' @ render_id driverId'"

definition vehicle_location_key :: "jsid \<Rightarrow> string" where
  "vehicle_location_key vehicleId' = ''vehicle:location:'' @ render_id vehicleId'"

definition eta_key :: "jsid \<Rightarrow> string \<Rightarrow> jsid \<Rightarrow> string" where
  "eta_key routeId stopId vehicleId' =
     ''eta:'' @ render_id routeId @ '':'' @ stopId @ '':'' @ render_id vehicleId'"

definition active_trip_key :: "jsid \<Rightarrow> string" where
  "active_trip_key tripId' = ''trip:active:'' @ render_id tripId'"

definition cacheVehicleLocation :: "jsid \<Rightarrow> cache_data \<Rightarrow> hub \<Rightarrow> hub" where
  "cacheVehicleLocation vehicleId' locationData =
     setex (vehicle_location_key vehicleId') 300 (CachedLocation locationData)"

definition cacheETA :: "jsid \<Rightarrow> string \<Rightarrow> jsid \<Rightarrow> int option \<times> nat \<Rightarrow> hub \<Rightarrow> hub" where
  "cacheETA routeId stopId vehicleId' eta =
     setex (eta_key routeId stopId vehicleId') 60 (CachedETA (fst eta) (snd eta))"

definition setActiveTripData :: "jsid \<Rightarrow> trip \<times> nat \<Rightarrow> hub \<Rightarrow> hub" where
  "setActiveTripData tripId' tripData =
     setex (active_trip_key tripId') 86400 (ActiveTrip (fst tripData) (snd tripData))"

definition setDriverSession :: "jsid \<Rightarrow> redis_value \<Rightarrow> hub \<Rightarrow> hub" where
  "setDriverSession driverId' sessionData =
     setex (driver_session_key driverId') 86400 sessionData"

definition removeDriverSession :: "jsid \<Rightarrow> hub \<Rightarrow> hub" where
  "removeDriverSession driverId' = del (driver_session_key driverId')"

text \<open>
  The second message is \<open>{ vehicleId, ...locationData }\<close>: the spread comes last, so the
  \<open>vehicleId\<close> of \<open>locationData\<close> is the one that is sent.
\<close>

definition publishLocationUpdate :: "jsid \<Rightarrow> cache_data \<Rightarrow> hub \<Rightarrow> hub" where
  "publishLocationUpdate vehicleId' locationData h =
     h\<lparr>published := published h @
          [(''location:'' @ render_id vehicleId', locationData),
           (''location:all'', locationData)]\<rparr>"

subsection \<open>Statements sent to the Catalog Store\<close>

text \<open>\<open>UPDATE t SET ... WHERE P RETURNING *\<close>: the new table and the rows it returns.\<close>

definition update_returning :: "('a \<Rightarrow> bool) \<Rightarrow> ('a \<Rightarrow> 'a) \<Rightarrow> 'a list \<Rightarrow> 'a list \<times> 'a list" where
  "update_returning P f rows = (map (\<lambda>r. if P r then f r else r) rows, map f (filter P rows))"

text \<open>
  The driver lookup of \<open>handleDriverConnection\<close>: drivers of the user, left-joined with
  the vehicles assigned to them, left-joined with the active trips of those vehicles.
\<close>

definition driverQuery :: "catalog \<Rightarrow> string option \<Rightarrow> (driver \<times> vehicle option \<times> trip option) list" where
  "driverQuery c uid =
     concat (map (\<lambda>d.
       let vs = filter (\<lambda>v. v_assigned_driver_id v = Some (d_id d)) (vehicles c)
       in if vs = [] then [(d, None, None)]
          else concat (map (\<lambda>v.
            let ts = filter (\<lambda>t. t_vehicle_id t = v_id v \<and> t_status t = ''active'') (trips c)
            in if ts = [] then [(d, Some v, None)]
               else map (\<lambda>t. (d, Some v, Some t)) ts) vs))
       (filter (\<lambda>d. Some (d_user_id d) = uid) (drivers c)))"

text \<open>
  \<open>INSERT INTO vehicle_locations\<close>: \<open>speed\<close> is \<open>DECIMAL(5,2)\<close>, \<open>heading\<close> is
  \<open>INTEGER\<close>, \<open>accuracy\<close> is \<open>DECIMAL(8,2)\<close>; \<open>vehicle_id\<close> is \<open>NOT NULL\<close> and
  references \<open>vehicles\<close>, \<open>trip_id\<close> is nullable and references \<open>trips\<close>.
\<close>

definition insert_vehicle_location :: "catalog \<Rightarrow> (jsstamp \<Rightarrow> bool) \<Rightarrow> string option \<Rightarrow> string option \<Rightarrow>
    jsnum \<times> jsnum \<Rightarrow> real option \<Rightarrow> real option \<Rightarrow> real option \<Rightarrow> fixtime \<Rightarrow> store_error + catalog" where
  "insert_vehicle_location c stores_date vid tid point spd hdg acc ts =
     bind_store (to_numeric 5 2 spd) (\<lambda>spd'.
     bind_store (to_integer hdg) (\<lambda>hdg'.
     bind_store (to_numeric 8 2 acc) (\<lambda>acc'.
       if \<not> date_accepted stores_date ts then Inl InvalidDatetimeFormat
       else
         (case vid of
            None \<Rightarrow> Inl ForeignKeyViolation
          | Some v \<Rightarrow>
              if v \<notin> set (map v_id (vehicles c)) then Inl ForeignKeyViolation
              else if tid \<noteq> None \<and> tid \<notin> set (map (\<lambda>t. Some (t_id t)) (trips c))
              then Inl ForeignKeyViolation
              else Inr (c\<lparr>vehicle_locations := vehicle_locations c @
                     [\<lparr>vl_vehicle_id = v, vl_trip_id = tid, vl_location = point,
                       vl_speed = spd', vl_heading = hdg', vl_accuracy = acc',
                       vl_timestamp = ts\<rparr>]\<rparr>)))))"

text \<open>
  \<open>UPDATE drivers SET total_trips = total_trips + 1 WHERE id = $1\<close>: the sum is an
  \<open>INTEGER\<close> and raises beyond 32 bits.
\<close>

definition increment_total_trips :: "driver list \<Rightarrow> string option \<Rightarrow> store_error + driver list" where
  "increment_total_trips rows did =
     (if \<exists>d \<in> set rows. Some (d_id d) = did \<and> 2147483647 < d_total_trips d + 1
      then Inl NumericValueOutOfRange
      else Inr (map (\<lambda>d. if Some (d_id d) = did
                        then d\<lparr>d_total_trips := d_total_trips d + 1\<rparr> else d) rows))"

text \<open>\<open>SELECT route_id FROM trips WHERE id = $1\<close>.\<close>

definition routeQuery :: "catalog \<Rightarrow> string option \<Rightarrow> string list" where
  "routeQuery c tid = map t_route_id (filter (\<lambda>t. Some (t_id t) = tid) (trips c))"

text \<open>
  \<open>INSERT INTO trip_stops ... ON CONFLICT (trip_id, bus_stop_id) DO UPDATE\<close>: a row of that
  pair is updated in place; otherwise a row is inserted, with the column defaults, and
  both foreign keys are checked. The count arrives already read as an \<open>INTEGER\<close>.
\<close>

definition upsert_trip_stop :: "catalog \<Rightarrow> string option \<Rightarrow> string option \<Rightarrow> nat \<Rightarrow> int option \<Rightarrow> store_error + catalog" where
  "upsert_trip_stop c tid sid now boarded =
     (case (tid, sid) of
        (Some t, Some s) \<Rightarrow>
          if \<exists>r \<in> set (trip_stops c). ts_trip_id r = t \<and> ts_bus_stop_id r = s
          then Inr (c\<lparr>trip_stops := map (\<lambda>r. if ts_trip_id r = t \<and> ts_bus_stop_id r = s
                          then r\<lparr>ts_passengers_boarded := boarded, ts_actual_arrival := Some now\<rparr>
                          else r) (trip_stops c)\<rparr>)
          else if t \<notin> set (map t_id (trips c)) \<or> s \<notin> set (map bs_id (bus_stops c))
          then Inl ForeignKeyViolation
          else Inr (c\<lparr>trip_stops := trip_stops c @
                 [\<lparr>ts_trip_id = t, ts_bus_stop_id = s, ts_actual_arrival = Some now,
                   ts_actual_departure = None, ts_passengers_boarded = boarded,
                   ts_passengers_alighted = Some 0\<rparr>]\<rparr>)
      | _ \<Rightarrow> Inl ForeignKeyViolation)"

text \<open>\<open>COALESCE(MAX(...), 0)\<close>: \<open>MAX\<close> over no rows is \<open>NULL\<close>.\<close>

fun sql_max :: "int list \<Rightarrow> int option" where
  "sql_max [] = None"
| "sql_max (x # xs) = Some (fold max xs x)"

definition coalesce :: "'a option \<Rightarrow> 'a \<Rightarrow> 'a" where
  "coalesce v d = (case v of None \<Rightarrow> d | Some x \<Rightarrow> x)"

record stop_row =
  sr_id :: string
  sr_name :: string
  sr_longitude :: real
  sr_latitude :: real
  sr_stop_order :: int

text \<open>The inner query of \<open>calculateAndEmitETAs\<close>: stop orders of the stops the trip has reached.\<close>

definition arrivedOrders :: "catalog \<Rightarrow> string option \<Rightarrow> int list" where
  "arrivedOrders c tid =
     [rs_stop_order rs2. ts \<leftarrow> trip_stops c, rs2 \<leftarrow> route_stops c,
        ts_bus_stop_id ts = rs_bus_stop_id rs2,
        Some (ts_trip_id ts) = tid \<and> ts_actual_arrival ts \<noteq> None]"

definition stopsQuery :: "catalog \<Rightarrow> string option \<Rightarrow> stop_row list" where
  "stopsQuery c tid =
     take 5 (sort_key sr_stop_order
       [\<lparr>sr_id = bs_id bs, sr_name = bs_name bs, sr_longitude = bs_longitude bs,
         sr_latitude = bs_latitude bs, sr_stop_order = rs_stop_order rs\<rparr>.
          rs \<leftarrow> route_stops c, bs \<leftarrow> bus_stops c, rs_bus_stop_id rs = bs_id bs,
          t \<leftarrow> trips c, rs_route_id rs = t_route_id t,
          Some (t_id t) = tid \<and> rs_stop_order rs > coalesce (sql_max (arrivedOrders c tid)) 0])"

subsection \<open>Inbound payloads\<close>

record location_data =
  latitude :: jsnum
  longitude :: jsnum
  speed :: jsnum
  heading :: jsnum
  accuracy :: jsnum
  timestamp :: jsstamp

record trip_data =
  passengerCount :: jsnum
  distanceCovered :: jsnum

record count_data =
  count :: jsnum
  stopId :: jsid

fun truthy_stamp :: "jsstamp \<Rightarrow> bool" where
  "truthy_stamp (SNum r) = (r \<noteq> 0)"
| "truthy_stamp (SStr s) = (s \<noteq> [])"
| "truthy_stamp SUndefined = False"
| "truthy_stamp SNull = False"

definition fix_time :: "jsstamp \<Rightarrow> nat \<Rightarrow> fixtime" where
  "fix_time timestamp' now = (if truthy_stamp timestamp' then ClientTime timestamp' else ServerTime now)"

subsection \<open>ETA Estimator\<close>

definition distance_to :: "jsnum \<times> jsnum \<Rightarrow> stop_row \<Rightarrow> real option" where
  "distance_to currentLocation stop =
     (case (to_number (fst currentLocation), to_number (snd currentLocation)) of
        (Some lat, Some lon) \<Rightarrow> Some (calculateDistance lat lon (sr_latitude stop) (sr_longitude stop))
      | _ \<Rightarrow> None)"

definition eta_entry :: "jsnum \<times> jsnum \<Rightarrow> stop_row \<Rightarrow> eta_update_entry" where
  "eta_entry currentLocation stop =
     (let distance = distance_to currentLocation stop;
          averageSpeed = 30;
          etaMinutes = map_option (\<lambda>d. Math_round ((d / averageSpeed) * 60)) distance
      in \<lparr>eu_stopId = sr_id stop, eu_stopName = sr_name stop, eu_eta = etaMinutes,
          eu_distance = map_option (\<lambda>d. real_of_int (Math_round (d * 100)) / 100) distance\<rparr>)"

text \<open>The \<open>for (const stop of stopsResult.rows)\<close> loop: push the entry, cache its ETA.\<close>

fun eta_loop :: "nat \<Rightarrow> jsnum \<times> jsnum \<Rightarrow> stop_row list \<Rightarrow> eta_update_entry list \<Rightarrow> hub
    \<Rightarrow> eta_update_entry list \<times> hub" where
  "eta_loop now currentLocation [] etaUpdates h = (etaUpdates, h)"
| "eta_loop now currentLocation (stop # rest) etaUpdates h =
     (let e = eta_entry currentLocation stop
      in eta_loop now currentLocation rest (etaUpdates @ [e])
           (cacheETA (tripId (sock h)) (sr_id stop) (vehicleId (sock h)) (eu_eta e, now) h))"

definition calculateAndEmitETAs :: "nat \<Rightarrow> jsnum \<times> jsnum \<Rightarrow> hub \<Rightarrow> hub" where
  "calculateAndEmitETAs now currentLocation h =
     (if \<not> truthy_id (tripId (sock h)) then h
      else
        let stopsResult = stopsQuery (db h) (sql_id (tripId (sock h)))
        in if length stopsResult > 0
           then (case eta_loop now currentLocation stopsResult [] h of
                   (etaUpdates, h') \<Rightarrow>
                     emit (ToRoom ''passengers'')
                       (Eta_update (vehicleId (sock h')) (tripId (sock h')) etaUpdates) h')
           else h)"

subsection \<open>Driver Session Manager\<close>

definition handleDriverConnection :: "nat \<Rightarrow> hub \<Rightarrow> hub" where
  "handleDriverConnection now h =
     (case driverQuery (db h) (sql_id (userId (sock h))) of
        [] \<Rightarrow> emit ToSelf (ErrorEvent ''Driver profile not found'') h
      | (d, v, t) # _ \<Rightarrow>
          let driver_id = Id (d_id d);
              vehicle_id = (case v of None \<Rightarrow> Null | Some v' \<Rightarrow> Id (v_id v'));
              trip_id = (case t of None \<Rightarrow> Null | Some t' \<Rightarrow> Id (t_id t'));
              h1 = h\<lparr>sock := (sock h)\<lparr>driverId := driver_id, vehicleId := vehicle_id,
                                        tripId := trip_id\<rparr>\<rparr>;
              h2 = (if truthy_id vehicle_id then join (''vehicle:'' @ render_id vehicle_id) h1
                    else h1);
              h3 = setDriverSession driver_id
                     (DriverSession (sock_id (sock h2)) vehicle_id trip_id ''connected'' now) h2;
              h4 = emit ToSelf
                     (Driver_status driver_id vehicle_id (map_option v_registration_number v)
                        trip_id (map_option t_status t) (d_status d)) h3
          in on ''passenger_count_update'' (on ''end_trip'' (on ''start_trip''
               (on ''location_update'' h4))))"

definition handlePassengerConnection :: "hub \<Rightarrow> hub" where
  "handlePassengerConnection h =
     (let h1 = join ''passengers'' h;
          h2 = (if userRole (sock h1) = ''admin'' then join ''admin'' h1 else h1)
      in on ''unsubscribe_vehicle'' (on ''unsubscribe_route'' (on ''subscribe_vehicle''
           (on ''subscribe_route'' h2))))"

subsection \<open>Location Ingestion Pipeline\<close>

definition handleLocationUpdate :: "(jsstamp \<Rightarrow> bool) \<Rightarrow> nat \<Rightarrow> location_data option \<Rightarrow> hub \<Rightarrow> hub" where
  "handleLocationUpdate stores_date now locationData h =
     (case locationData of
        None \<Rightarrow> emit ToSelf (ErrorEvent ''Failed to update location'') h
      | Some ld \<Rightarrow>
          if \<not> truthy_num (latitude ld) \<or> \<not> truthy_num (longitude ld)
          then emit ToSelf (ErrorEvent ''Invalid location data'') h
          else if \<not> truthy_id (vehicleId (sock h))
          then emit ToSelf (ErrorEvent ''No vehicle assigned'') h
          else
            (case insert_vehicle_location (db h) stores_date (sql_id (vehicleId (sock h)))
                    (sql_id (tripId (sock h))) (longitude ld, latitude ld)
                    (sql_num (or_null (speed ld))) (sql_num (or_null (heading ld)))
                    (sql_num (or_null (accuracy ld))) (fix_time (timestamp ld) now) of
               Inl err \<Rightarrow> emit ToSelf (ErrorEvent ''Failed to update location'') h
             | Inr db' \<Rightarrow>
                 let s = sock h;
                     cacheData = \<lparr>cd_vehicleId = vehicleId s, cd_tripId = tripId s,
                                  cd_latitude = latitude ld, cd_longitude = longitude ld,
                                  cd_speed = speed ld, cd_heading = heading ld,
                                  cd_accuracy = accuracy ld,
                                  cd_timestamp = fix_time (timestamp ld) now,
                                  cd_driverId = driverId s\<rparr>;
                     h1 = cacheVehicleLocation (vehicleId s) cacheData (h\<lparr>db := db'\<rparr>);
                     h2 = publishLocationUpdate (vehicleId s) cacheData h1;
                     h3 = emit (ToRoom (''vehicle:'' @ render_id (vehicleId s)))
                            (Location_update cacheData) h2;
                     h4 = (if truthy_id (tripId s)
                           then (case routeQuery (db h3) (sql_id (tripId s)) of
                                   [] \<Rightarrow> h3
                                 | routeId # _ \<Rightarrow>
                                     emit (ToRoom (''route:'' @ routeId))
                                       (Route_vehicle_update routeId cacheData) h3)
                           else h3);
                     h5 = emit (ToRoom ''admin'') (Vehicle_location_update cacheData) h4
                 in calculateAndEmitETAs now (latitude ld, longitude ld) h5))"

subsection \<open>Trip State Machine\<close>

definition handleTripStart :: "nat \<Rightarrow> hub \<Rightarrow> hub" where
  "handleTripStart now h =
     (if \<not> truthy_id (tripId (sock h))
      then emit ToSelf (ErrorEvent ''No active trip found'') h
      else
        (case update_returning
                (\<lambda>t. Some (t_id t) = sql_id (tripId (sock h)) \<and>
                      Some (t_driver_id t) = sql_id (driverId (sock h)))
                (\<lambda>t. t\<lparr>t_status := ''active'', t_actual_start_time := Some now\<rparr>)
                (trips (db h)) of
           (trips', []) \<Rightarrow>
             emit ToSelf (ErrorEvent ''Failed to start trip'') (h\<lparr>db := (db h)\<lparr>trips := trips'\<rparr>\<rparr>)
         | (trips', trip # _) \<Rightarrow>
             let s = sock h;
                 h1 = setActiveTripData (tripId s) (trip, now) (h\<lparr>db := (db h)\<lparr>trips := trips'\<rparr>\<rparr>);
                 h2 = emit ToSelf (Trip_started (tripId s) (t_actual_start_time trip)) h1
             in emit (ToRoom (''route:'' @ t_route_id trip))
                  (Trip_status_update (tripId s) (vehicleId s) ''active''
                     (t_actual_start_time trip)) h2))"

definition handleTripEnd :: "nat \<Rightarrow> trip_data option \<Rightarrow> hub \<Rightarrow> hub" where
  "handleTripEnd now tripData h =
     (if \<not> truthy_id (tripId (sock h))
      then emit ToSelf (ErrorEvent ''No active trip found'') h
      else
        (case tripData of
           None \<Rightarrow> emit ToSelf (ErrorEvent ''Failed to end trip'') h
         | Some td \<Rightarrow>
            (case (to_integer (sql_num (or_zero (passengerCount td))),
                   to_numeric 10 2 (sql_num (or_zero (distanceCovered td)))) of
               (Inr passenger_count, Inr distance_covered) \<Rightarrow>
                 (case update_returning
                         (\<lambda>t. Some (t_id t) = sql_id (tripId (sock h)) \<and>
                               Some (t_driver_id t) = sql_id (driverId (sock h)))
                         (\<lambda>t. t\<lparr>t_status := ''completed'', t_actual_end_time := Some now,
                                t_passenger_count := passenger_count,
                                t_distance_covered := distance_covered\<rparr>)
                         (trips (db h)) of
                    (trips', []) \<Rightarrow>
                      emit ToSelf (ErrorEvent ''Failed to end trip'')
                        (h\<lparr>db := (db h)\<lparr>trips := trips'\<rparr>\<rparr>)
                  | (trips', trip # _) \<Rightarrow>
                      let s = sock h;
                          h1 = removeDriverSession (driverId s)
                                 (h\<lparr>db := (db h)\<lparr>trips := trips'\<rparr>\<rparr>)
                      in (case increment_total_trips (drivers (db h1)) (sql_id (driverId s)) of
                            Inl err \<Rightarrow> emit ToSelf (ErrorEvent ''Failed to end trip'') h1
                          | Inr drivers' \<Rightarrow>
                              let h2 = h1\<lparr>db := (db h1)\<lparr>drivers := drivers'\<rparr>\<rparr>;
                                  h3 = emit ToSelf
                                         (Trip_ended (tripId s) (t_actual_end_time trip)
                                            (t_passenger_count trip) (t_distance_covered trip)) h2;
                                  h4 = emit (ToRoom (''route:'' @ t_route_id trip))
                                         (Trip_status_update (tripId s) (vehicleId s)
                                            ''completed'' (t_actual_end_time trip)) h3
                              in h4\<lparr>sock := (sock h4)\<lparr>tripId := Null\<rparr>\<rparr>))
             | _ \<Rightarrow> emit ToSelf (ErrorEvent ''Failed to end trip'') h)))"

subsection \<open>Passenger-count Recorder\<close>

definition handlePassengerCountUpdate :: "nat \<Rightarrow> count_data option \<Rightarrow> hub \<Rightarrow> hub" where
  "handlePassengerCountUpdate now countData h =
     (if \<not> truthy_id (tripId (sock h))
      then emit ToSelf (ErrorEvent ''No active trip found'') h
      else
        (case countData of
           None \<Rightarrow> emit ToSelf (ErrorEvent ''Failed to update passenger count'') h
         | Some cd \<Rightarrow>
            (case to_integer (sql_num (count cd)) of
               Inl err \<Rightarrow> emit ToSelf (ErrorEvent ''Failed to update passenger count'') h
             | Inr passenger_count \<Rightarrow>
                 let s = sock h;
                     h1 = h\<lparr>db := (db h)\<lparr>trips :=
                            map (\<lambda>t. if Some (t_id t) = sql_id (tripId s)
                                      then t\<lparr>t_passenger_count := passenger_count\<rparr> else t)
                                (trips (db h))\<rparr>\<rparr>;
                     notify = emit (ToRoom (''vehicle:'' @ render_id (vehicleId s)))
                                (Passenger_count_update (vehicleId s) (tripId s) (count cd)
                                   (stopId cd))
                 in if truthy_id (stopId cd)
                    then (case upsert_trip_stop (db h1) (sql_id (tripId s)) (sql_id (stopId cd))
                                 now passenger_count of
                            Inl err \<Rightarrow>
                              emit ToSelf (ErrorEvent ''Failed to update passenger count'') h1
                          | Inr db' \<Rightarrow> notify (h1\<lparr>db := db'\<rparr>))
                    else notify h1)))"

subsection \<open>Disconnection Reconciler\<close>

definition handleDisconnection :: "hub \<Rightarrow> hub" where
  "handleDisconnection h =
     (if userRole (sock h) = ''driver'' \<and> truthy_id (driverId (sock h))
      then
        let h1 = removeDriverSession (driverId (sock h)) h
        in h1\<lparr>db := (db h1)\<lparr>drivers :=
               map (\<lambda>d. if Some (d_id d) = sql_id (driverId (sock h))
                         then d\<lparr>d_status := ''inactive''\<rparr> else d)
                   (drivers (db h1))\<rparr>\<rparr>
      else h)"

subsection \<open>Connection Gateway: registration and dispatch of events\<close>

datatype client_event =
    Location_update_msg "location_data option"
  | Start_trip_msg
  | End_trip_msg "trip_data option"
  | Passenger_count_update_msg "count_data option"
  | Subscribe_route string
  | Subscribe_vehicle string
  | Unsubscribe_route string
  | Unsubscribe_vehicle string
  | Disconnect

fun event_name :: "client_event \<Rightarrow> string" where
  "event_name (Location_update_msg _) = ''location_update''"
| "event_name Start_trip_msg = ''start_trip''"
| "event_name (End_trip_msg _) = ''end_trip''"
| "event_name (Passenger_count_update_msg _) = ''passenger_count_update''"
| "event_name (Subscribe_route _) = ''subscribe_route''"
| "event_name (Subscribe_vehicle _) = ''subscribe_vehicle''"
| "event_name (Unsubscribe_route _) = ''unsubscribe_route''"
| "event_name (Unsubscribe_vehicle _) = ''unsubscribe_vehicle''"
| "event_name Disconnect = ''disconnect''"

text \<open>The \<open>io.on('connection', ...)\<close> callback of \<open>setupLocationSocket\<close>.\<close>

definition connection :: "nat \<Rightarrow> hub \<Rightarrow> hub" where
  "connection now h =
     (let h1 = (if userRole (sock h) = ''driver'' then handleDriverConnection now h else h);
          h2 = (if userRole (sock h1) = ''passenger'' \<or> userRole (sock h1) = ''admin''
                then handlePassengerConnection h1 else h1)
      in on ''disconnect'' h2)"

text \<open>
  An inbound event runs the callback registered for its name with \<open>socket.on\<close>; an event
  without a listener is dropped.
\<close>

fun run_listener :: "(jsstamp \<Rightarrow> bool) \<Rightarrow> nat \<Rightarrow> client_event \<Rightarrow> hub \<Rightarrow> hub" where
  "run_listener sd now (Location_update_msg locationData) h = handleLocationUpdate sd now locationData h"
| "run_listener sd now Start_trip_msg h = handleTripStart now h"
| "run_listener sd now (End_trip_msg tripData) h = handleTripEnd now tripData h"
| "run_listener sd now (Passenger_count_update_msg countData) h = handlePassengerCountUpdate now countData h"
| "run_listener sd now (Subscribe_route routeId) h = join (''route:'' @ routeId) h"
| "run_listener sd now (Subscribe_vehicle vehicleId') h = join (''vehicle:'' @ vehicleId') h"
| "run_listener sd now (Unsubscribe_route routeId) h = leave (''route:'' @ routeId) h"
| "run_listener sd now (Unsubscribe_vehicle vehicleId') h = leave (''vehicle:'' @ vehicleId') h"
| "run_listener sd now Disconnect h = handleDisconnection h"

definition deliver :: "(jsstamp \<Rightarrow> bool) \<Rightarrow> nat \<Rightarrow> client_event \<Rightarrow> hub \<Rightarrow> hub" where
  "deliver stores_date now ev h =
     (if event_name ev \<in> set (listeners (sock h)) then run_listener stores_date now ev h else h)"

text \<open>A sequence of inbound events, each with the time it is handled at.\<close>

fun deliver_all :: "(jsstamp \<Rightarrow> bool) \<Rightarrow> (nat \<times> client_event) list \<Rightarrow> hub \<Rightarrow> hub" where
  "deliver_all stores_date [] h = h"
| "deliver_all stores_date ((now, ev) # evs) h =
     deliver_all stores_date evs (deliver stores_date now ev h)"

text \<open>The events \<open>handleDriverConnection\<close> registers listeners for.\<close>

definition driver_event :: "client_event \<Rightarrow> bool" where
  "driver_event ev =
     (event_name ev \<in> {''location_update'', ''start_trip'', ''end_trip'', ''passenger_count_update''})"

subsection \<open>Payloads the columns take\<close>

text \<open>
  A number field fits an \<open>INTEGER\<close> or a \<open>DECIMAL(p, s)\<close> column when it is absent, null
  (both are sent as \<open>NULL\<close>) or a number that the column reads without raising.
\<close>

definition integer_fits :: "jsnum \<Rightarrow> bool" where
  "integer_fits x = (case x of Num n \<Rightarrow> is_int4 n | _ \<Rightarrow> True)"

definition decimal_fits :: "nat \<Rightarrow> nat \<Rightarrow> jsnum \<Rightarrow> bool" where
  "decimal_fits p s x = (case x of Num r \<Rightarrow> numeric_fits p s r | _ \<Rightarrow> True)"

text \<open>An \<open>end_trip\<close> payload that fits \<open>trips.passenger_count\<close> and \<open>trips.distance_covered\<close>.\<close>

definition trip_data_fits :: "trip_data \<Rightarrow> bool" where
  "trip_data_fits td =
     (integer_fits (passengerCount td) \<and> decimal_fits 10 2 (distanceCovered td))"

text \<open>A fix that fits the columns of \<open>vehicle_locations\<close>, handled at \<open>now\<close>.\<close>

definition fix_fits :: "(jsstamp \<Rightarrow> bool) \<Rightarrow> nat \<Rightarrow> location_data \<Rightarrow> bool" where
  "fix_fits stores_date now ld =
     (decimal_fits 5 2 (speed ld) \<and> integer_fits (heading ld) \<and>
      decimal_fits 8 2 (accuracy ld) \<and>
      date_accepted stores_date (fix_time (timestamp ld) now))"

subsection \<open>A small deployment, used to run the handlers on concrete inputs\<close>

text \<open>
  Driver \<open>D1\<close> (user \<open>U1\<close>) drives vehicle \<open>V1\<close> on route \<open>R1\<close>, which has the seven stops
  \<open>S1\<close> to \<open>S7\<close> in that order; stop \<open>S2\<close> is also the ninth stop of route \<open>R2\<close>.
  Trip \<open>T1\<close> is \<open>D1\<close>'s active trip and has reached \<open>S1\<close>; \<open>T2\<close> is a scheduled trip of
  driver \<open>D2\<close>; \<open>T3\<close> is a completed trip of \<open>D1\<close>.
\<close>

definition demo_trips :: "trip list" where
  "demo_trips =
     [\<lparr>t_id = ''T1'', t_vehicle_id = ''V1'', t_driver_id = ''D1'', t_route_id = ''R1'',
       t_status = ''active'', t_actual_start_time = Some 100, t_actual_end_time = None,
       t_passenger_count = Some 0, t_distance_covered = None\<rparr>,
      \<lparr>t_id = ''T2'', t_vehicle_id = ''V1'', t_driver_id = ''D2'', t_route_id = ''R1'',
       t_status = ''scheduled'', t_actual_start_time = None, t_actual_end_time = None,
       t_passenger_count = Some 0, t_distance_covered = None\<rparr>,
      \<lparr>t_id = ''T3'', t_vehicle_id = ''V1'', t_driver_id = ''D1'', t_route_id = ''R1'',
       t_status = ''completed'', t_actual_start_time = Some 10, t_actual_end_time = Some 50,
       t_passenger_count = Some 7, t_distance_covered = Some 3\<rparr>]"

definition demo_route_stops :: "route_stop list" where
  "demo_route_stops =
     [\<lparr>rs_route_id = ''R1'', rs_bus_stop_id = ''S3'', rs_stop_order = 3\<rparr>,
      \<lparr>rs_route_id = ''R1'', rs_bus_stop_id = ''S1'', rs_stop_order = 1\<rparr>,
      \<lparr>rs_route_id = ''R1'', rs_bus_stop_id = ''S2'', rs_stop_order = 2\<rparr>,
      \<lparr>rs_route_id = ''R1'', rs_bus_stop_id = ''S7'', rs_stop_order = 7\<rparr>,
      \<lparr>rs_route_id = ''R1'', rs_bus_stop_id = ''S4'', rs_stop_order = 4\<rparr>,
      \<lparr>rs_route_id = ''R1'', rs_bus_stop_id = ''S6'', rs_stop_order = 6\<rparr>,
      \<lparr>rs_route_id = ''R1'', rs_bus_stop_id = ''S5'', rs_stop_order = 5\<rparr>,
      \<lparr>rs_route_id = ''R2'', rs_bus_stop_id = ''S2'', rs_stop_order = 9\<rparr>]"

definition demo_bus_stops :: "bus_stop list" where
  "demo_bus_stops =
     [\<lparr>bs_id = ''S1'', bs_name = ''City Center'', bs_longitude = 78.0322, bs_latitude = 30.3165\<rparr>,
      \<lparr>bs_id = ''S2'', bs_name = ''Clock Tower'', bs_longitude = 78.0348, bs_latitude = 30.3204\<rparr>,
      \<lparr>bs_id = ''S3'', bs_name = ''ISBT'', bs_longitude = 78.0423, bs_latitude = 30.3254\<rparr>,
      \<lparr>bs_id = ''S4'', bs_name = ''Airport'', bs_longitude = 78.1802, bs_latitude = 30.1872\<rparr>,
      \<lparr>bs_id = ''S5'', bs_name = ''University'', bs_longitude = 78.05, bs_latitude = 30.33\<rparr>,
      \<lparr>bs_id = ''S6'', bs_name = ''Mall'', bs_longitude = 78.06, bs_latitude = 30.34\<rparr>,
      \<lparr>bs_id = ''S7'', bs_name = ''Hospital'', bs_longitude = 78.07, bs_latitude = 30.35\<rparr>]"

definition demo_catalog :: catalog where
  "demo_catalog =
     \<lparr>drivers =
        [\<lparr>d_id = ''D1'', d_user_id = ''U1'', d_status = ''active'', d_total_trips = 4\<rparr>,
         \<lparr>d_id = ''D2'', d_user_id = ''U2'', d_status = ''active'', d_total_trips = 0\<rparr>],
      vehicles =
        [\<lparr>v_id = ''V1'', v_registration_number = ''UK07'', v_assigned_driver_id = Some ''D1''\<rparr>],
      trips = demo_trips,
      route_stops = demo_route_stops,
      bus_stops = demo_bus_stops,
      trip_stops =
        [\<lparr>ts_trip_id = ''T1'', ts_bus_stop_id = ''S1'', ts_actual_arrival = Some 120,
          ts_actual_departure = Some 125, ts_passengers_boarded = Some 3,
          ts_passengers_alighted = Some 1\<rparr>],
      vehicle_locations = []\<rparr>"

definition demo_socket :: socket where
  "demo_socket =
     \<lparr>sock_id = ''sock1'', userId = Id ''U1'', userRole = ''driver'', driverId = Undefined,
      vehicleId = Undefined, tripId = Undefined, rooms = [], listeners = []\<rparr>"

text \<open>
  The hub before \<open>U1\<close> connects, and once the driver connection is set up (lemma
  \<open>demo_hub_reached\<close> below): the connection is bound to \<open>D1\<close>, \<open>V1\<close> and \<open>T1\<close>.
\<close>

definition demo_start :: hub where
  "demo_start =
     \<lparr>sock = demo_socket, db = demo_catalog, redis_kv = Map.empty, published = [], emitted = []\<rparr>"

definition demo_hub :: hub where
  "demo_hub =
     \<lparr>sock = \<lparr>sock_id = ''sock1'', userId = Id ''U1'', userRole = ''driver'',
              driverId = Id ''D1'', vehicleId = Id ''V1'', tripId = Id ''T1'',
              rooms = [''vehicle:V1''],
              listeners = [''location_update'', ''start_trip'', ''end_trip'',
                           ''passenger_count_update'', ''disconnect'']\<rparr>,
      db = demo_catalog,
      redis_kv = [''driver:session:D1'' \<mapsto>
                    (86400, DriverSession ''sock1'' (Id ''V1'') (Id ''T1'') ''connected'' 90)],
      published = [], emitted = []\<rparr>"

text \<open>The same connection, bound to another trip.\<close>

definition demo_bound_to :: "string \<Rightarrow> hub" where
  "demo_bound_to trip_id = demo_hub\<lparr>sock := (sock demo_hub)\<lparr>tripId := Id trip_id\<rparr>\<rparr>"

definition demo_fix :: location_data where
  "demo_fix =
     \<lparr>latitude = Num 30.30, longitude = Num 78.03, speed = Num 0, heading = Num 0,
      accuracy = Num 0, timestamp = SUndefined\<rparr>"

text \<open>A fix in motion, stamped by the client.\<close>

definition demo_fix_moving :: location_data where
  "demo_fix_moving =
     \<lparr>latitude = Num 30.30, longitude = Num 78.03, speed = Num 12.345, heading = Num 90,
      accuracy = Num 0, timestamp = SNum 1700000000000\<rparr>"

text \<open>A store that takes client dates given as milliseconds since 1970, and no others.\<close>

definition demo_stores_date :: "jsstamp \<Rightarrow> bool" where
  "demo_stores_date v = (case v of SNum r \<Rightarrow> 0 \<le> r | _ \<Rightarrow> False)"

definition demo_trip_data :: trip_data where
  "demo_trip_data = \<lparr>passengerCount = Num 12, distanceCovered = Num 8.4\<rparr>"

text \<open>The same with the distance given to the metre.\<close>

definition demo_trip_data_metres :: trip_data where
  "demo_trip_data_metres = \<lparr>passengerCount = Num 12, distanceCovered = Num 8.456\<rparr>"

text \<open>A driver connection without an assigned vehicle, and a user without a driver profile.\<close>

definition demo_no_vehicle :: hub where
  "demo_no_vehicle =
     demo_hub\<lparr>sock := (sock demo_hub)\<lparr>vehicleId := Null, tripId := Null, rooms := []\<rparr>\<rparr>"

definition demo_unknown_user :: hub where
  "demo_unknown_user = demo_start\<lparr>sock := demo_socket\<lparr>userId := Id ''U9''\<rparr>\<rparr>"

section \<open>Properties\<close>

subsection \<open>Auxiliary facts\<close>

lemmas demo_defs = demo_hub_def demo_bound_to_def demo_start_def demo_socket_def demo_catalog_def
  demo_trips_def demo_route_stops_def demo_bus_stops_def demo_fix_def demo_trip_data_def

lemmas fits_defs = trip_data_fits_def fix_fits_def integer_fits_def decimal_fits_def is_int4_def
  numeric_fits_def to_scale_def round_half_away_def fix_time_def demo_stores_date_def
  demo_fix_moving_def

lemma demo_hub_reached: "(connection 90 demo_start)\<lparr>emitted := []\<rparr> = demo_hub"
  by (simp add: demo_defs connection_def handleDriverConnection_def driverQuery_def emit_def
      join_def on_def setDriverSession_def setex_def driver_session_key_def Let_def)

lemma update_returning_unmatched:
  "\<forall>r \<in> set rows. \<not> P r \<Longrightarrow> update_returning P f rows = (rows, [])"
  by (simp add: update_returning_def filter_empty_conv map_idI)

lemma update_returning_matched:
  assumes "x \<in> set rows" and "P x"
  shows "\<exists>r rs. update_returning P f rows = (map (\<lambda>r. if P r then f r else r) rows, f r # rs)
           \<and> r \<in> set rows \<and> P r"
proof -
  from assms have "filter P rows \<noteq> []"
    by (auto simp: filter_empty_conv)
  then obtain r rs where fr: "filter P rows = r # rs"
    by (cases "filter P rows") auto
  then have "r \<in> set (filter P rows)"
    by simp
  then have "r \<in> set rows" "P r"
    by auto
  with fr show ?thesis
    by (auto simp: update_returning_def)
qed

lemma primary_key_unique:
  assumes "distinct (map key rows)" and "x \<in> set rows" and "y \<in> set rows" and "key x = key y"
  shows "x = y"
  using assms by (meson distinct_map inj_on_eq_iff)


lemma to_integer_or_zero:
  "integer_fits x \<Longrightarrow>
   to_integer (sql_num (or_zero x)) = Inr (case x of Num n \<Rightarrow> Some \<lfloor>n\<rfloor> | _ \<Rightarrow> Some 0)"
  by (cases x) (auto simp: integer_fits_def is_int4_def to_integer_def or_zero_def)

lemma to_integer_or_null:
  "integer_fits x \<Longrightarrow>
   to_integer (sql_num (or_null x)) =
     Inr (case x of Num n \<Rightarrow> if n = 0 then None else Some \<lfloor>n\<rfloor> | _ \<Rightarrow> None)"
  by (cases x) (auto simp: integer_fits_def is_int4_def to_integer_def or_null_def)

lemma to_scale_zero: "to_scale s 0 = 0"
  by (simp add: to_scale_def round_half_away_def)

lemma to_numeric_or_zero:
  "decimal_fits p s x \<Longrightarrow>
   to_numeric p s (sql_num (or_zero x)) =
     Inr (case x of Num r \<Rightarrow> Some (to_scale s r) | _ \<Rightarrow> Some 0)"
  by (cases x) (auto simp: decimal_fits_def numeric_fits_def to_numeric_def or_zero_def to_scale_zero)

lemma to_numeric_or_null:
  "decimal_fits p s x \<Longrightarrow>
   to_numeric p s (sql_num (or_null x)) =
     Inr (case x of Num r \<Rightarrow> if r = 0 then None else Some (to_scale s r) | _ \<Rightarrow> None)"
  by (cases x) (auto simp: decimal_fits_def numeric_fits_def to_numeric_def or_null_def)

lemma increment_total_trips_ok:
  assumes "\<forall>d \<in> set rows. Some (d_id d) = did \<longrightarrow> d_total_trips d < 2147483647"
  shows "increment_total_trips rows did =
           Inr (map (\<lambda>d. if Some (d_id d) = did
                          then d\<lparr>d_total_trips := d_total_trips d + 1\<rparr> else d) rows)"
proof -
  have "\<not> (\<exists>d \<in> set rows. Some (d_id d) = did \<and> 2147483647 < d_total_trips d + 1)"
    using assms by force
  then show ?thesis
    unfolding increment_total_trips_def by (rule if_not_P)
qed

lemma insert_vehicle_location_ok:
  assumes fits: "fix_fits stores_date now ld"
    and vehicle_row: "v \<in> v_id ` set (vehicles c)"
    and trip_row: "tid = None \<or> tid \<in> Some ` t_id ` set (trips c)"
  shows "insert_vehicle_location c stores_date (Some v) tid point
           (sql_num (or_null (speed ld))) (sql_num (or_null (heading ld)))
           (sql_num (or_null (accuracy ld))) (fix_time (timestamp ld) now) =
         Inr (c\<lparr>vehicle_locations := vehicle_locations c @
               [\<lparr>vl_vehicle_id = v, vl_trip_id = tid, vl_location = point,
                 vl_speed = (case speed ld of
                               Num r \<Rightarrow> if r = 0 then None else Some (to_scale 2 r) | _ \<Rightarrow> None),
                 vl_heading = (case heading ld of
                                 Num r \<Rightarrow> if r = 0 then None else Some \<lfloor>r\<rfloor> | _ \<Rightarrow> None),
                 vl_accuracy = (case accuracy ld of
                                  Num r \<Rightarrow> if r = 0 then None else Some (to_scale 2 r) | _ \<Rightarrow> None),
                 vl_timestamp = fix_time (timestamp ld) now\<rparr>]\<rparr>)"
proof -
  from fits have spd: "decimal_fits 5 2 (speed ld)" and hdg: "integer_fits (heading ld)"
    and acc: "decimal_fits 8 2 (accuracy ld)"
    and dat: "date_accepted stores_date (fix_time (timestamp ld) now)"
    by (simp_all add: fix_fits_def)
  from vehicle_row have v: "v \<in> set (map v_id (vehicles c))"
    by simp
  from trip_row have t: "\<not> (tid \<noteq> None \<and> tid \<notin> set (map (\<lambda>t. Some (t_id t)) (trips c)))"
    by (auto simp: image_iff)
  show ?thesis
    unfolding insert_vehicle_location_def bind_store_def
      to_numeric_or_null[OF spd] to_integer_or_null[OF hdg] to_numeric_or_null[OF acc]
    using dat v t by simp
qed

lemma end_trip_success:
  assumes bound: "truthy_id (tripId (sock h))"
    and pk: "distinct (map t_id (trips (db h)))"
    and t_in: "t \<in> set (trips (db h))"
    and t_key: "Some (t_id t) = sql_id (tripId (sock h))"
    and t_owner: "Some (t_driver_id t) = sql_id (driverId (sock h))"
    and td_fits: "trip_data_fits td"
    and counter: "\<forall>d \<in> set (drivers (db h)).
                    d_id d = t_driver_id t \<longrightarrow> d_total_trips d < 2147483647"
  shows "handleTripEnd now (Some td) h =
     h\<lparr>sock := (sock h)\<lparr>tripId := Null\<rparr>,
       db := (db h)\<lparr>
         trips := map (\<lambda>r. if r = t
                       then t\<lparr>t_status := ''completed'', t_actual_end_time := Some now,
                              t_passenger_count :=
                                (case passengerCount td of Num n \<Rightarrow> Some \<lfloor>n\<rfloor> | _ \<Rightarrow> Some 0),
                              t_distance_covered :=
                                (case distanceCovered td of
                                   Num x \<Rightarrow> Some (to_scale 2 x) | _ \<Rightarrow> Some 0)\<rparr>
                       else r) (trips (db h)),
         drivers := map (\<lambda>d. if d_id d = t_driver_id t
                         then d\<lparr>d_total_trips := d_total_trips d + 1\<rparr> else d) (drivers (db h))\<rparr>,
       redis_kv := (redis_kv h)(driver_session_key (driverId (sock h)) := None),
       emitted := emitted h @
         [(ToSelf, Trip_ended (tripId (sock h)) (Some now)
                     (case passengerCount td of Num n \<Rightarrow> Some \<lfloor>n\<rfloor> | _ \<Rightarrow> Some 0)
                     (case distanceCovered td of Num x \<Rightarrow> Some (to_scale 2 x) | _ \<Rightarrow> Some 0)),
          (ToRoom (''route:'' @ t_route_id t),
             Trip_status_update (tripId (sock h)) (vehicleId (sock h)) ''completed'' (Some now))]\<rparr>"
proof -
  let ?pc = "case passengerCount td of Num n \<Rightarrow> Some \<lfloor>n\<rfloor> | _ \<Rightarrow> Some 0"
  let ?dc = "case distanceCovered td of Num x \<Rightarrow> Some (to_scale 2 x) | _ \<Rightarrow> Some 0"
  let ?P = "\<lambda>t. Some (t_id t) = sql_id (tripId (sock h)) \<and> Some (t_driver_id t) = sql_id (driverId (sock h))"
  let ?f = "\<lambda>t. t\<lparr>t_status := ''completed'', t_actual_end_time := Some now,
                           t_passenger_count := ?pc, t_distance_covered := ?dc\<rparr>"
  from td_fits have pc: "to_integer (sql_num (or_zero (passengerCount td))) = Inr ?pc"
    and dc: "to_numeric 10 2 (sql_num (or_zero (distanceCovered td))) = Inr ?dc"
    by (simp_all add: trip_data_fits_def to_integer_or_zero to_numeric_or_zero)
  from update_returning_matched[of t "trips (db h)" ?P ?f] t_in t_key t_owner
  obtain r rs where ur: "update_returning ?P ?f (trips (db h)) =
        (map (\<lambda>r. if ?P r then ?f r else r) (trips (db h)), ?f r # rs)"
    and r_in: "r \<in> set (trips (db h))" and Pr: "?P r"
    by blast
  have "t_id r = t_id t"
    using Pr t_key by (metis option.inject)
  with pk r_in t_in have rt: "r = t"
    by (rule primary_key_unique)
  have same: "map (\<lambda>r. if ?P r then ?f r else r) (trips (db h)) =
              map (\<lambda>r. if r = t then ?f t else r) (trips (db h))"
  proof (rule map_cong[OF refl])
    fix x assume x_in: "x \<in> set (trips (db h))"
    show "(if ?P x then ?f x else x) = (if x = t then ?f t else x)"
    proof (cases "?P x")
      case True
      then have "t_id x = t_id t" using t_key by (metis option.inject)
      with pk x_in t_in have "x = t" by (rule primary_key_unique)
      with True show ?thesis by simp
    next
      case False
      with t_key t_owner have "x \<noteq> t" by auto
      with False show ?thesis by auto
    qed
  qed
  have owner: "\<And>d. (Some (d_id d) = sql_id (driverId (sock h))) = (d_id d = t_driver_id t)"
    using t_owner by (metis option.inject)
  have inc: "increment_total_trips (drivers (db h)) (sql_id (driverId (sock h))) =
          Inr (map (\<lambda>d. if d_id d = t_driver_id t
                         then d\<lparr>d_total_trips := d_total_trips d + 1\<rparr> else d) (drivers (db h)))"
    using increment_total_trips_ok[of "drivers (db h)" "sql_id (driverId (sock h))"] counter
    by (simp add: owner)
  show ?thesis
    using bound
    by (simp add: handleTripEnd_def pc dc ur inc rt same emit_def removeDriverSession_def del_def
          Let_def)
qed

lemma location_update_without_trip:
  assumes "tripId (sock h) = Null" and "truthy_id (vehicleId (sock h))"
    and "truthy_num (latitude ld)" and "truthy_num (longitude ld)"
    and "sql_id (vehicleId (sock h)) \<in> Some ` v_id ` set (vehicles (db h))"
    and "fix_fits stores_date now ld"
  shows "vehicle_locations (db (handleLocationUpdate stores_date now (Some ld) h)) =
           vehicle_locations (db h) @
             [\<lparr>vl_vehicle_id = render_id (vehicleId (sock h)), vl_trip_id = None,
               vl_location = (longitude ld, latitude ld),
               vl_speed = (case speed ld of
                             Num r \<Rightarrow> if r = 0 then None else Some (to_scale 2 r) | _ \<Rightarrow> None),
               vl_heading = (case heading ld of
                               Num r \<Rightarrow> if r = 0 then None else Some \<lfloor>r\<rfloor> | _ \<Rightarrow> None),
               vl_accuracy = (case accuracy ld of
                                Num r \<Rightarrow> if r = 0 then None else Some (to_scale 2 r) | _ \<Rightarrow> None),
               vl_timestamp = fix_time (timestamp ld) now\<rparr>]
       \<and> map fst (emitted (handleLocationUpdate stores_date now (Some ld) h)) =
           map fst (emitted h) @ [ToRoom (''vehicle:'' @ render_id (vehicleId (sock h))), ToRoom ''admin'']"
proof -
  from assms(2) obtain v where v: "vehicleId (sock h) = Id v"
    by (cases "vehicleId (sock h)") auto
  from assms(5) have "v \<in> v_id ` set (vehicles (db h))"
    unfolding v by auto
  from insert_vehicle_location_ok[OF assms(6) this, of None "(longitude ld, latitude ld)"]
  show ?thesis
    using assms(1-4)
    by (simp add: handleLocationUpdate_def v calculateAndEmitETAs_def emit_def
          cacheVehicleLocation_def publishLocationUpdate_def setex_def Let_def)
qed

lemma deliver_all_unheard:
  assumes "\<forall>ev \<in> snd ` set evs. event_name ev \<notin> set (listeners (sock h))"
  shows "deliver_all stores_date evs h = h"
  using assms by (induction stores_date evs h rule: deliver_all.induct) (auto simp: deliver_def)


lemma sql_max_upper: "x \<in> set xs \<Longrightarrow> x \<le> coalesce (sql_max xs) d"
proof (cases xs)
  case Nil
  then show "x \<in> set xs \<Longrightarrow> x \<le> coalesce (sql_max xs) d" by simp
next
  case (Cons a as)
  assume "x \<in> set xs"
  then have "x \<le> Max (set (a # as))"
    using Cons by (intro Max_ge) auto
  also have "Max (set (a # as)) = fold max as a"
    by (rule Max.set_eq_fold)
  finally show "x \<le> coalesce (sql_max xs) d"
    by (simp add: Cons coalesce_def)
qed

lemma arrivedOrders_mem:
  assumes "ts \<in> set (trip_stops c)" and "rs2 \<in> set (route_stops c)"
    and "ts_bus_stop_id ts = rs_bus_stop_id rs2"
    and "Some (ts_trip_id ts) = tid" and "ts_actual_arrival ts \<noteq> None"
  shows "rs_stop_order rs2 \<in> set (arrivedOrders c tid)"
  using assms by (force simp: arrivedOrders_def)

lemma stopsQuery_above_threshold:
  "r \<in> set (stopsQuery c tid) \<Longrightarrow> coalesce (sql_max (arrivedOrders c tid)) 0 < sr_stop_order r"
proof -
  assume "r \<in> set (stopsQuery c tid)"
  then have "r \<in> set (sort_key sr_stop_order
       [\<lparr>sr_id = bs_id bs, sr_name = bs_name bs, sr_longitude = bs_longitude bs,
         sr_latitude = bs_latitude bs, sr_stop_order = rs_stop_order rs\<rparr>.
          rs \<leftarrow> route_stops c, bs \<leftarrow> bus_stops c, rs_bus_stop_id rs = bs_id bs,
          t \<leftarrow> trips c, rs_route_id rs = t_route_id t,
          Some (t_id t) = tid \<and> rs_stop_order rs > coalesce (sql_max (arrivedOrders c tid)) 0])"
    unfolding stopsQuery_def by (rule in_set_takeD)
  then show ?thesis
    by (auto split: if_splits)
qed

lemma stopsQuery_sorted: "sorted (map sr_stop_order (stopsQuery c tid))"
  unfolding stopsQuery_def take_map[symmetric] by (intro sorted_wrt_take) simp

lemma fst_eta_loop:
  "fst (eta_loop now loc rows acc h) = acc @ map (eta_entry loc) rows"
  by (induction rows arbitrary: acc h) (simp_all add: Let_def)

lemma eta_loop_frame:
  "sock (snd (eta_loop now loc rows acc h)) = sock h \<and>
   db (snd (eta_loop now loc rows acc h)) = db h \<and>
   published (snd (eta_loop now loc rows acc h)) = published h \<and>
   emitted (snd (eta_loop now loc rows acc h)) = emitted h"
  by (induction rows arbitrary: acc h) (simp_all add: Let_def cacheETA_def setex_def)


lemma calculateAndEmitETAs_emitted:
  "emitted (calculateAndEmitETAs now loc h) =
     emitted h @
       (if truthy_id (tripId (sock h)) \<and> stopsQuery (db h) (sql_id (tripId (sock h))) \<noteq> []
        then [(ToRoom ''passengers'',
               Eta_update (vehicleId (sock h)) (tripId (sock h))
                 (map (eta_entry loc) (stopsQuery (db h) (sql_id (tripId (sock h))))))]
        else [])"
proof -
  obtain es h' where e: "eta_loop now loc (stopsQuery (db h) (sql_id (tripId (sock h)))) [] h = (es, h')"
    by (cases "eta_loop now loc (stopsQuery (db h) (sql_id (tripId (sock h)))) [] h")
  from fst_eta_loop[of now loc "stopsQuery (db h) (sql_id (tripId (sock h)))" "[]" h]
       eta_loop_frame[of now loc "stopsQuery (db h) (sql_id (tripId (sock h)))" "[]" h]
  show ?thesis
    by (simp add: calculateAndEmitETAs_def e emit_def Let_def)
qed


text \<open>The distance function computes the haversine distance of the specification.\<close>

lemma cos_product_half_angles:
  fixes p q :: real
  shows "cos (p - q) * cos (p + q) = (cos p)\<^sup>2 - (sin q)\<^sup>2"
proof -
  have "cos (p - q) * cos (p + q) = (cos p * cos q)\<^sup>2 - (sin p * sin q)\<^sup>2"
    by (simp add: cos_add cos_diff power2_eq_square algebra_simps)
  also have "\<dots> = (cos p)\<^sup>2 * (1 - (sin q)\<^sup>2) - (1 - (cos p)\<^sup>2) * (sin q)\<^sup>2"
    by (simp add: power_mult_distrib cos_squared_eq[of q] sin_squared_eq[of p])
  also have "\<dots> = (cos p)\<^sup>2 - (sin q)\<^sup>2"
    by (simp add: algebra_simps)
  finally show ?thesis .
qed

lemma convex_unit:
  fixes s c u :: real
  assumes "0 \<le> s" "s \<le> 1" "0 \<le> c" "c \<le> 1" "0 \<le> u" "u \<le> 1"
  shows "0 \<le> s * (1 - u) + c * u" and "s * (1 - u) + c * u \<le> 1"
proof -
  show "0 \<le> s * (1 - u) + c * u"
    using assms by (intro add_nonneg_nonneg mult_nonneg_nonneg) auto
  have "s * (1 - u) \<le> 1 * (1 - u)"
    using assms by (intro mult_right_mono) auto
  moreover have "c * u \<le> 1 * u"
    using assms by (intro mult_right_mono) auto
  ultimately show "s * (1 - u) + c * u \<le> 1"
    by simp
qed

lemma haversine_argument_range:
  fixes \<phi>1 \<phi>2 d :: real
  shows "0 \<le> (sin ((\<phi>2 - \<phi>1) / 2))\<^sup>2 + cos \<phi>1 * cos \<phi>2 * (sin (d / 2))\<^sup>2 \<and>
         (sin ((\<phi>2 - \<phi>1) / 2))\<^sup>2 + cos \<phi>1 * cos \<phi>2 * (sin (d / 2))\<^sup>2 \<le> 1"
proof -
  let ?p = "(\<phi>2 + \<phi>1) / 2" and ?q = "(\<phi>2 - \<phi>1) / 2"
  let ?s = "(sin ?q)\<^sup>2" and ?c = "(cos ?p)\<^sup>2" and ?u = "(sin (d / 2))\<^sup>2"
  let ?a = "?s + cos \<phi>1 * cos \<phi>2 * ?u"
  have "\<phi>1 = ?p - ?q" "\<phi>2 = ?p + ?q"
    by (simp_all add: field_simps)
  then have "cos \<phi>1 * cos \<phi>2 = cos (?p - ?q) * cos (?p + ?q)"
    by simp
  also have "\<dots> = ?c - ?s"
    by (rule cos_product_half_angles)
  finally have cc: "cos \<phi>1 * cos \<phi>2 = ?c - ?s" .
  have "?a = ?s + (?c - ?s) * ?u"
    by (simp only: cc)
  also have "\<dots> = ?s * (1 - ?u) + ?c * ?u"
    by algebra
  finally have "?a = ?s * (1 - ?u) + ?c * ?u" .
  moreover have "0 \<le> ?s" "?s \<le> 1" "0 \<le> ?c" "?c \<le> 1" "0 \<le> ?u" "?u \<le> 1"
    by (simp_all add: abs_square_le_1)
  ultimately show ?thesis
    using convex_unit[of ?s ?c ?u] by simp
qed

lemma atan2_sqrt_arcsin:
  assumes "0 \<le> a" and "a \<le> 1"
  shows "Math_atan2 (sqrt a) (sqrt (1 - a)) = arcsin (sqrt a)"
proof (cases "a = 1")
  case True
  then show ?thesis
    by (simp add: Math_atan2_def)
next
  case False
  with assms have lt: "a < 1" by simp
  then have pos: "0 < sqrt (1 - a)" by simp
  have "- 1 < sqrt a" "sqrt a < 1"
    using assms lt by (auto intro: less_le_trans[of "-1" 0] simp: real_sqrt_lt_1_iff)
  then have "arcsin (sqrt a) = arctan (sqrt a / sqrt (1 - (sqrt a)\<^sup>2))"
    by (rule arcsin_arctan)
  also have "(sqrt a)\<^sup>2 = a"
    using assms by simp
  finally show ?thesis
    using pos by (simp add: Math_atan2_def)
qed

lemma calculateDistance_haversine:
  "calculateDistance lat1 lon1 lat2 lon2 = spec_haversine_km lat1 lon1 lat2 lon2"
proof -
  let ?a = "(sin ((radians lat2 - radians lat1) / 2))\<^sup>2 +
            cos (radians lat1) * cos (radians lat2) * (sin ((radians lon2 - radians lon1) / 2))\<^sup>2"
  have range: "0 \<le> ?a \<and> ?a \<le> 1"
    by (rule haversine_argument_range)
  have d: "(lat2 - lat1) * pi / 180 = radians lat2 - radians lat1"
          "(lon2 - lon1) * pi / 180 = radians lon2 - radians lon1"
    by (simp_all add: radians_def algebra_simps diff_divide_distrib)
  have "calculateDistance lat1 lon1 lat2 lon2 = 6371 * (2 * Math_atan2 (sqrt ?a) (sqrt (1 - ?a)))"
    unfolding calculateDistance_def Let_def d
    by (simp add: radians_def power2_eq_square mult.assoc)
  also have "\<dots> = 6371 * (2 * arcsin (sqrt ?a))"
    using range by (simp add: atan2_sqrt_arcsin)
  also have "\<dots> = spec_haversine_km lat1 lon1 lat2 lon2"
    by (simp add: spec_haversine_km_def hav_def)
  finally show ?thesis .
qed

lemma calculateDistance_same_point: "calculateDistance lat lon lat lon = 0"
  by (simp add: calculateDistance_def Math_atan2_def)

subsection \<open>Payloads the columns refuse\<close>

text \<open>
  A number that its column does not take makes the statement raise before any row is
  touched, and the handler answers from its \<open>catch\<close> block with nothing written.
\<close>

lemma to_integer_refused:
  "\<not> integer_fits x \<Longrightarrow> \<exists>e. to_integer (sql_num x) = Inl e"
  by (cases x) (auto simp: integer_fits_def is_int4_def to_integer_def)

lemma to_integer_or_zero_refused:
  "\<not> integer_fits x \<Longrightarrow> \<exists>e. to_integer (sql_num (or_zero x)) = Inl e"
  by (cases x) (auto simp: integer_fits_def is_int4_def to_integer_def or_zero_def)

lemma to_integer_or_null_refused:
  "\<not> integer_fits x \<Longrightarrow> \<exists>e. to_integer (sql_num (or_null x)) = Inl e"
  by (cases x) (auto simp: integer_fits_def is_int4_def to_integer_def or_null_def)

lemma to_numeric_or_zero_refused:
  "\<not> decimal_fits p s x \<Longrightarrow> \<exists>e. to_numeric p s (sql_num (or_zero x)) = Inl e"
  by (cases x)
     (auto simp: decimal_fits_def numeric_fits_def to_numeric_def or_zero_def to_scale_zero)

lemma to_numeric_or_null_refused:
  "\<not> decimal_fits p s x \<Longrightarrow> \<exists>e. to_numeric p s (sql_num (or_null x)) = Inl e"
  by (cases x)
     (auto simp: decimal_fits_def numeric_fits_def to_numeric_def or_null_def to_scale_zero)

lemma end_trip_refused:
  assumes "truthy_id (tripId (sock h))" and "\<not> trip_data_fits td"
  shows "handleTripEnd now (Some td) h = emit ToSelf (ErrorEvent ''Failed to end trip'') h"
proof -
  from assms(2) consider "\<not> integer_fits (passengerCount td)"
    | "\<not> decimal_fits 10 2 (distanceCovered td)"
    by (auto simp: trip_data_fits_def)
  then show ?thesis
  proof cases
    case 1
    then obtain e where "to_integer (sql_num (or_zero (passengerCount td))) = Inl e"
      using to_integer_or_zero_refused by blast
    with assms(1) show ?thesis
      by (simp add: handleTripEnd_def)
  next
    case 2
    then obtain e where "to_numeric 10 2 (sql_num (or_zero (distanceCovered td))) = Inl e"
      using to_numeric_or_zero_refused by blast
    with assms(1) show ?thesis
      by (simp add: handleTripEnd_def split: sum.splits)
  qed
qed

lemma passenger_count_refused:
  assumes "truthy_id (tripId (sock h))" and "\<not> integer_fits (count cd)"
  shows "handlePassengerCountUpdate now (Some cd) h =
           emit ToSelf (ErrorEvent ''Failed to update passenger count'') h"
proof -
  from assms(2) obtain e where "to_integer (sql_num (count cd)) = Inl e"
    using to_integer_refused by blast
  with assms(1) show ?thesis
    by (simp add: handlePassengerCountUpdate_def)
qed

lemma insert_vehicle_location_refused:
  assumes "\<not> fix_fits stores_date now ld"
  shows "\<exists>e. insert_vehicle_location c stores_date vid tid point
                (sql_num (or_null (speed ld))) (sql_num (or_null (heading ld)))
                (sql_num (or_null (accuracy ld))) (fix_time (timestamp ld) now) = Inl e"
proof (cases "decimal_fits 5 2 (speed ld)")
  case False
  then obtain e where "to_numeric 5 2 (sql_num (or_null (speed ld))) = Inl e"
    using to_numeric_or_null_refused by blast
  then show ?thesis
    by (simp add: insert_vehicle_location_def bind_store_def)
next
  case spd: True
  show ?thesis
  proof (cases "integer_fits (heading ld)")
    case False
    then obtain e where "to_integer (sql_num (or_null (heading ld))) = Inl e"
      using to_integer_or_null_refused by blast
    then show ?thesis
      by (simp add: insert_vehicle_location_def bind_store_def to_numeric_or_null[OF spd])
  next
    case hdg: True
    show ?thesis
    proof (cases "decimal_fits 8 2 (accuracy ld)")
      case False
      then obtain e where "to_numeric 8 2 (sql_num (or_null (accuracy ld))) = Inl e"
        using to_numeric_or_null_refused by blast
      then show ?thesis
        by (simp add: insert_vehicle_location_def bind_store_def to_numeric_or_null[OF spd]
              to_integer_or_null[OF hdg])
    next
      case acc: True
      with spd hdg assms have "\<not> date_accepted stores_date (fix_time (timestamp ld) now)"
        by (simp add: fix_fits_def)
      then show ?thesis
        by (simp add: insert_vehicle_location_def bind_store_def to_numeric_or_null[OF spd]
              to_integer_or_null[OF hdg] to_numeric_or_null[OF acc])
    qed
  qed
qed

lemma location_update_refused:
  assumes "truthy_num (latitude ld)" and "truthy_num (longitude ld)"
    and "truthy_id (vehicleId (sock h))" and "\<not> fix_fits stores_date now ld"
  shows "handleLocationUpdate stores_date now (Some ld) h =
           emit ToSelf (ErrorEvent ''Failed to update location'') h"
proof -
  from insert_vehicle_location_refused[OF assms(4)]
  obtain e where "insert_vehicle_location (db h) stores_date (sql_id (vehicleId (sock h)))
                    (sql_id (tripId (sock h))) (longitude ld, latitude ld)
                    (sql_num (or_null (speed ld))) (sql_num (or_null (heading ld)))
                    (sql_num (or_null (accuracy ld))) (fix_time (timestamp ld) now) = Inl e"
    by blast
  with assms(1-3) show ?thesis
    by (simp add: handleLocationUpdate_def)
qed

text \<open>
  On the deployment above: a trip ended with 12.5 passengers or with 3000000000, a count
  of 2.5, and a fix with heading 90.5.
\<close>

lemma refused_on_demo_hub:
  "handleTripEnd 200 (Some \<lparr>passengerCount = Num 12.5, distanceCovered = Num 8.4\<rparr>) demo_hub =
     demo_hub\<lparr>emitted := [(ToSelf, ErrorEvent ''Failed to end trip'')]\<rparr>"
  "handleTripEnd 200 (Some \<lparr>passengerCount = Num 3000000000, distanceCovered = Num 8.4\<rparr>)
       demo_hub =
     demo_hub\<lparr>emitted := [(ToSelf, ErrorEvent ''Failed to end trip'')]\<rparr>"
  "handlePassengerCountUpdate 200 (Some \<lparr>count = Num 2.5, stopId = Id ''S1''\<rparr>) demo_hub =
     demo_hub\<lparr>emitted := [(ToSelf, ErrorEvent ''Failed to update passenger count'')]\<rparr>"
  "handleLocationUpdate demo_stores_date 200 (Some (demo_fix\<lparr>heading := Num 90.5\<rparr>)) demo_hub =
     demo_hub\<lparr>emitted := [(ToSelf, ErrorEvent ''Failed to update location'')]\<rparr>"
proof -
  have 1: "truthy_id (tripId (sock demo_hub))" "truthy_id (vehicleId (sock demo_hub))"
    "emitted demo_hub = []"
    by (simp_all add: demo_defs)
  have 2: "\<not> trip_data_fits \<lparr>passengerCount = Num 12.5, distanceCovered = Num 8.4\<rparr>"
    "\<not> trip_data_fits \<lparr>passengerCount = Num 3000000000, distanceCovered = Num 8.4\<rparr>"
    "\<not> integer_fits (count \<lparr>count = Num 2.5, stopId = Id ''S1''\<rparr>)"
    "\<not> fix_fits demo_stores_date 200 (demo_fix\<lparr>heading := Num 90.5\<rparr>)"
    by (simp_all add: fits_defs demo_fix_def)
  have 3: "truthy_num (latitude (demo_fix\<lparr>heading := Num 90.5\<rparr>))"
    "truthy_num (longitude (demo_fix\<lparr>heading := Num 90.5\<rparr>))"
    by (simp_all add: demo_fix_def)
  show "handleTripEnd 200 (Some \<lparr>passengerCount = Num 12.5, distanceCovered = Num 8.4\<rparr>)
          demo_hub = demo_hub\<lparr>emitted := [(ToSelf, ErrorEvent ''Failed to end trip'')]\<rparr>"
    using end_trip_refused[OF 1(1) 2(1)] by (simp add: emit_def 1(3))
  show "handleTripEnd 200 (Some \<lparr>passengerCount = Num 3000000000, distanceCovered = Num 8.4\<rparr>)
          demo_hub = demo_hub\<lparr>emitted := [(ToSelf, ErrorEvent ''Failed to end trip'')]\<rparr>"
    using end_trip_refused[OF 1(1) 2(2)] by (simp add: emit_def 1(3))
  show "handlePassengerCountUpdate 200 (Some \<lparr>count = Num 2.5, stopId = Id ''S1''\<rparr>) demo_hub =
          demo_hub\<lparr>emitted := [(ToSelf, ErrorEvent ''Failed to update passenger count'')]\<rparr>"
    using passenger_count_refused[OF 1(1) 2(3)] by (simp add: emit_def 1(3))
  show "handleLocationUpdate demo_stores_date 200 (Some (demo_fix\<lparr>heading := Num 90.5\<rparr>))
          demo_hub =
          demo_hub\<lparr>emitted := [(ToSelf, ErrorEvent ''Failed to update location'')]\<rparr>"
    using location_update_refused[OF 3 1(2) 2(4)] by (simp add: emit_def 1(3))
qed

subsection \<open>Trip start\<close>

text \<open>
  C1 (as amended). A \<open>start_trip\<close> on a connection with a bound trip id, when no trip row
  of that id belongs to the calling driver, matches zero rows: the driver receives
  \<open>Failed to start trip\<close> and nothing else changes; in particular the status and the
  actual start time of every trip are left as they were. The \<open>UPDATE\<close> carries no condition
  on the current status.
\<close>

theorem start_trip_not_owned:
  assumes bound: "truthy_id (tripId (sock h))"
    and not_owned: "\<forall>t \<in> set (trips (db h)).
        Some (t_id t) = sql_id (tripId (sock h)) \<longrightarrow>
        Some (t_driver_id t) \<noteq> sql_id (driverId (sock h))"
  shows "handleTripStart now h =
           h\<lparr>emitted := emitted h @ [(ToSelf, ErrorEvent ''Failed to start trip'')]\<rparr>"
proof -
  have "update_returning
          (\<lambda>t. Some (t_id t) = sql_id (tripId (sock h)) \<and>
                Some (t_driver_id t) = sql_id (driverId (sock h)))
          (\<lambda>t. t\<lparr>t_status := ''active'', t_actual_start_time := Some now\<rparr>) (trips (db h))
        = (trips (db h), [])"
    using not_owned by (intro update_returning_unmatched) auto
  with bound show ?thesis
    by (simp add: handleTripStart_def emit_def)
qed

text \<open>Driver \<open>D1\<close>, bound to \<open>D2\<close>'s trip \<open>T2\<close>, cannot start it.\<close>

theorem start_trip_not_owned_witness:
  "handleTripStart 200 (demo_bound_to ''T2'') =
     (demo_bound_to ''T2'')\<lparr>emitted := emitted (demo_bound_to ''T2'') @
        [(ToSelf, ErrorEvent ''Failed to start trip'')]\<rparr>"
  by (rule start_trip_not_owned) (simp_all add: demo_defs)

text \<open>
  The claim as written fails where the trip is the caller's own: \<open>D1\<close>'s completed trip
  \<open>T3\<close> is set back to \<open>active\<close> and acknowledged with \<open>trip_started\<close>, and the start time
  of the already active trip \<open>T1\<close> is overwritten.
\<close>

theorem start_trip_status_counterexample:
  "map t_driver_id (trips (db demo_hub)) = [''D1'', ''D2'', ''D1''] \<and>
   driverId (sock demo_hub) = Id ''D1'' \<and>
   map t_status (trips (db (demo_bound_to ''T3''))) = [''active'', ''scheduled'', ''completed''] \<and>
   map t_status (trips (db (handleTripStart 200 (demo_bound_to ''T3'')))) =
     [''active'', ''scheduled'', ''active''] \<and>
   emitted (handleTripStart 200 (demo_bound_to ''T3'')) =
     [(ToSelf, Trip_started (Id ''T3'') (Some 200)),
      (ToRoom ''route:R1'', Trip_status_update (Id ''T3'') (Id ''V1'') ''active'' (Some 200))] \<and>
   map t_actual_start_time (trips (db demo_hub)) = [Some 100, None, Some 10] \<and>
   map t_actual_start_time (trips (db (handleTripStart 200 demo_hub))) =
     [Some 200, None, Some 10] \<and>
   emitted (handleTripStart 200 demo_hub) =
     [(ToSelf, Trip_started (Id ''T1'') (Some 200)),
      (ToRoom ''route:R1'', Trip_status_update (Id ''T1'') (Id ''V1'') ''active'' (Some 200))]"
  by (simp add: demo_defs handleTripStart_def update_returning_def emit_def
      setActiveTripData_def setex_def active_trip_key_def Let_def)

subsection \<open>Trip end\<close>

text \<open>
  C2 (as amended). After a successful \<open>end_trip\<close> (the bound trip is the caller's own,
  the payload fits the columns of \<open>trips\<close>, the trip counter does not overflow) the
  driver's DriverSession key is deleted and the trip binding of the connection is cleared,
  while the vehicle binding stays as it was. A later \<open>location_update\<close> on the same
  connection is therefore not turned away for lack of a vehicle: with truthy coordinates,
  the vehicle still in the catalog and a fix that fits the columns of
  \<open>vehicle_locations\<close>, it appends a LocationFix with a null trip id and is fanned out to
  the vehicle and admin groups, and nothing is sent back to the driver.
\<close>

theorem end_trip_keeps_vehicle:
  assumes bound: "truthy_id (tripId (sock h))"
    and pk: "distinct (map t_id (trips (db h)))"
    and t_in: "t \<in> set (trips (db h))"
    and t_key: "Some (t_id t) = sql_id (tripId (sock h))"
    and t_owner: "Some (t_driver_id t) = sql_id (driverId (sock h))"
    and td_fits: "trip_data_fits td"
    and counter: "\<forall>d \<in> set (drivers (db h)).
                    d_id d = t_driver_id t \<longrightarrow> d_total_trips d < 2147483647"
    and vehicle: "truthy_id (vehicleId (sock h))"
    and vehicle_row: "sql_id (vehicleId (sock h)) \<in> Some ` v_id ` set (vehicles (db h))"
    and coords: "truthy_num (latitude ld)" "truthy_num (longitude ld)"
    and ld_fits: "fix_fits stores_date now' ld"
  shows "redis_kv (handleTripEnd now (Some td) h) (driver_session_key (driverId (sock h))) = None
       \<and> tripId (sock (handleTripEnd now (Some td) h)) = Null
       \<and> vehicleId (sock (handleTripEnd now (Some td) h)) = vehicleId (sock h)
       \<and> vehicle_locations (db (handleLocationUpdate stores_date now' (Some ld)
                                   (handleTripEnd now (Some td) h))) =
           vehicle_locations (db h) @
             [\<lparr>vl_vehicle_id = render_id (vehicleId (sock h)), vl_trip_id = None,
               vl_location = (longitude ld, latitude ld),
               vl_speed = (case speed ld of
                             Num r \<Rightarrow> if r = 0 then None else Some (to_scale 2 r) | _ \<Rightarrow> None),
               vl_heading = (case heading ld of
                               Num r \<Rightarrow> if r = 0 then None else Some \<lfloor>r\<rfloor> | _ \<Rightarrow> None),
               vl_accuracy = (case accuracy ld of
                                Num r \<Rightarrow> if r = 0 then None else Some (to_scale 2 r) | _ \<Rightarrow> None),
               vl_timestamp = fix_time (timestamp ld) now'\<rparr>]
       \<and> map fst (emitted (handleLocationUpdate stores_date now' (Some ld)
                              (handleTripEnd now (Some td) h))) =
           map fst (emitted (handleTripEnd now (Some td) h)) @
             [ToRoom (''vehicle:'' @ render_id (vehicleId (sock h))), ToRoom ''admin'']"
proof -
  let ?h1 = "handleTripEnd now (Some td) h"
  note eq = end_trip_success[OF bound pk t_in t_key t_owner td_fits counter, of now]
  have 1: "tripId (sock ?h1) = Null" and 2: "vehicleId (sock ?h1) = vehicleId (sock h)"
    and 3: "vehicles (db ?h1) = vehicles (db h)"
    and 4: "vehicle_locations (db ?h1) = vehicle_locations (db h)"
    and 5: "redis_kv ?h1 (driver_session_key (driverId (sock h))) = None"
    by (simp_all add: eq)
  from location_update_without_trip[of ?h1 ld stores_date now'] 1 2 3 4 vehicle vehicle_row
    coords ld_fits
  show ?thesis
    using 5 by simp
qed

text \<open>Driver \<open>D1\<close> ends trip \<open>T1\<close> and then sends a fix with speed 12.345 and heading 90.\<close>

theorem end_trip_keeps_vehicle_witness:
  "redis_kv (handleTripEnd 200 (Some demo_trip_data) demo_hub)
       (driver_session_key (driverId (sock demo_hub))) = None
   \<and> tripId (sock (handleTripEnd 200 (Some demo_trip_data) demo_hub)) = Null
   \<and> vehicleId (sock (handleTripEnd 200 (Some demo_trip_data) demo_hub)) = Id ''V1''
   \<and> vehicle_locations (db (handleLocationUpdate demo_stores_date 210 (Some demo_fix_moving)
                              (handleTripEnd 200 (Some demo_trip_data) demo_hub))) =
       [\<lparr>vl_vehicle_id = ''V1'', vl_trip_id = None, vl_location = (Num 78.03, Num 30.30),
         vl_speed = Some 12.35, vl_heading = Some 90, vl_accuracy = None,
         vl_timestamp = ClientTime (SNum 1700000000000)\<rparr>]"
proof -
  have "truthy_id (tripId (sock demo_hub))" "distinct (map t_id (trips (db demo_hub)))"
    "hd demo_trips \<in> set (trips (db demo_hub))"
    "Some (t_id (hd demo_trips)) = sql_id (tripId (sock demo_hub))"
    "Some (t_driver_id (hd demo_trips)) = sql_id (driverId (sock demo_hub))"
    "trip_data_fits demo_trip_data"
    "\<forall>d \<in> set (drivers (db demo_hub)).
        d_id d = t_driver_id (hd demo_trips) \<longrightarrow> d_total_trips d < 2147483647"
    "truthy_id (vehicleId (sock demo_hub))"
    "sql_id (vehicleId (sock demo_hub)) \<in> Some ` v_id ` set (vehicles (db demo_hub))"
    "truthy_num (latitude demo_fix_moving)" "truthy_num (longitude demo_fix_moving)"
    "fix_fits demo_stores_date 210 demo_fix_moving"
    by (simp_all add: demo_defs fits_defs)
  from end_trip_keeps_vehicle[OF this, of 200] show ?thesis
    by (simp add: demo_defs fits_defs)
qed

text \<open>
  The claim as written fails there: the fix after the end of \<open>T1\<close> draws no error, is
  written to \<open>vehicle_locations\<close> and is broadcast.
\<close>

theorem end_trip_location_counterexample:
  "emitted (handleTripEnd 200 (Some demo_trip_data) demo_hub) =
     [(ToSelf, Trip_ended (Id ''T1'') (Some 200) (Some 12) (Some 8.4)),
      (ToRoom ''route:R1'', Trip_status_update (Id ''T1'') (Id ''V1'') ''completed'' (Some 200))] \<and>
   emitted (handleLocationUpdate demo_stores_date 210 (Some demo_fix)
              (handleTripEnd 200 (Some demo_trip_data) demo_hub)) =
     [(ToSelf, Trip_ended (Id ''T1'') (Some 200) (Some 12) (Some 8.4)),
      (ToRoom ''route:R1'', Trip_status_update (Id ''T1'') (Id ''V1'') ''completed'' (Some 200)),
      (ToRoom ''vehicle:V1'', Location_update
         \<lparr>cd_vehicleId = Id ''V1'', cd_tripId = Null, cd_latitude = Num 30.30,
          cd_longitude = Num 78.03, cd_speed = Num 0, cd_heading = Num 0, cd_accuracy = Num 0,
          cd_timestamp = ServerTime 210, cd_driverId = Id ''D1''\<rparr>),
      (ToRoom ''admin'', Vehicle_location_update
         \<lparr>cd_vehicleId = Id ''V1'', cd_tripId = Null, cd_latitude = Num 30.30,
          cd_longitude = Num 78.03, cd_speed = Num 0, cd_heading = Num 0, cd_accuracy = Num 0,
          cd_timestamp = ServerTime 210, cd_driverId = Id ''D1''\<rparr>)] \<and>
   vehicle_locations (db (handleLocationUpdate demo_stores_date 210 (Some demo_fix)
                            (handleTripEnd 200 (Some demo_trip_data) demo_hub))) =
     [\<lparr>vl_vehicle_id = ''V1'', vl_trip_id = None, vl_location = (Num 78.03, Num 30.30),
       vl_speed = None, vl_heading = None, vl_accuracy = None, vl_timestamp = ServerTime 210\<rparr>]"
  by (simp add: demo_defs fits_defs handleTripEnd_def handleLocationUpdate_def
       update_returning_def insert_vehicle_location_def bind_store_def to_integer_def
       to_numeric_def increment_total_trips_def calculateAndEmitETAs_def or_null_def or_zero_def
       emit_def cacheVehicleLocation_def publishLocationUpdate_def setex_def
       removeDriverSession_def del_def Let_def)

text \<open>
  C4 (as amended). A successful \<open>end_trip\<close> on the caller's own trip \<open>t\<close> (the payload
  fits the columns of \<open>trips\<close>, the trip counter does not overflow) sets that row, and no
  other, to \<open>completed\<close> with the end time \<open>now\<close>, the passenger count as supplied and the
  distance covered as supplied, rounded to the two decimal places of its column, or 0
  where the field is absent or null; it adds exactly 1 to \<open>total_trips\<close> of the calling
  driver and of nobody else; and it sends \<open>trip_ended\<close> to the driver and
  \<open>trip_status_update\<close> with status \<open>completed\<close> to the group of the trip's route.
\<close>

theorem end_trip_effects:
  assumes bound: "truthy_id (tripId (sock h))"
    and pk: "distinct (map t_id (trips (db h)))"
    and t_in: "t \<in> set (trips (db h))"
    and t_key: "Some (t_id t) = sql_id (tripId (sock h))"
    and t_owner: "Some (t_driver_id t) = sql_id (driverId (sock h))"
    and td_fits: "trip_data_fits td"
    and counter: "\<forall>d \<in> set (drivers (db h)).
                    d_id d = t_driver_id t \<longrightarrow> d_total_trips d < 2147483647"
  shows "trips (db (handleTripEnd now (Some td) h)) =
           map (\<lambda>r. if r = t
                     then t\<lparr>t_status := ''completed'', t_actual_end_time := Some now,
                            t_passenger_count :=
                              (case passengerCount td of Num n \<Rightarrow> Some \<lfloor>n\<rfloor> | _ \<Rightarrow> Some 0),
                            t_distance_covered :=
                              (case distanceCovered td of
                                 Num x \<Rightarrow> Some (to_scale 2 x) | _ \<Rightarrow> Some 0)\<rparr>
                     else r) (trips (db h))
       \<and> (\<forall>n. passengerCount td = Num n \<longrightarrow> real_of_int \<lfloor>n\<rfloor> = n)
       \<and> drivers (db (handleTripEnd now (Some td) h)) =
           map (\<lambda>d. if d_id d = t_driver_id t then d\<lparr>d_total_trips := d_total_trips d + 1\<rparr> else d)
               (drivers (db h))
       \<and> emitted (handleTripEnd now (Some td) h) =
           emitted h @
             [(ToSelf, Trip_ended (tripId (sock h)) (Some now)
                         (case passengerCount td of Num n \<Rightarrow> Some \<lfloor>n\<rfloor> | _ \<Rightarrow> Some 0)
                         (case distanceCovered td of Num x \<Rightarrow> Some (to_scale 2 x) | _ \<Rightarrow> Some 0)),
              (ToRoom (''route:'' @ t_route_id t),
                 Trip_status_update (tripId (sock h)) (vehicleId (sock h)) ''completed'' (Some now))]"
proof -
  have whole: "\<forall>n. passengerCount td = Num n \<longrightarrow> real_of_int \<lfloor>n\<rfloor> = n"
    using td_fits by (auto simp: trip_data_fits_def integer_fits_def is_int4_def)
  show ?thesis
    using whole by (simp add: end_trip_success[OF assms])
qed

text \<open>The scenario of the specification: \<open>end_trip {passengerCount: 12, distanceCovered: 8.4}\<close>.\<close>

theorem end_trip_effects_witness:
  "trips (db (handleTripEnd 200 (Some demo_trip_data) demo_hub)) =
     [\<lparr>t_id = ''T1'', t_vehicle_id = ''V1'', t_driver_id = ''D1'', t_route_id = ''R1'',
       t_status = ''completed'', t_actual_start_time = Some 100, t_actual_end_time = Some 200,
       t_passenger_count = Some 12, t_distance_covered = Some 8.4\<rparr>,
      demo_trips ! 1, demo_trips ! 2] \<and>
   map d_total_trips (drivers (db demo_hub)) = [4, 0] \<and>
   map d_total_trips (drivers (db (handleTripEnd 200 (Some demo_trip_data) demo_hub))) = [5, 0] \<and>
   emitted (handleTripEnd 200 (Some demo_trip_data) demo_hub) =
     [(ToSelf, Trip_ended (Id ''T1'') (Some 200) (Some 12) (Some 8.4)),
      (ToRoom ''route:R1'', Trip_status_update (Id ''T1'') (Id ''V1'') ''completed'' (Some 200))]"
proof -
  have "truthy_id (tripId (sock demo_hub))" "distinct (map t_id (trips (db demo_hub)))"
    "hd demo_trips \<in> set (trips (db demo_hub))"
    "Some (t_id (hd demo_trips)) = sql_id (tripId (sock demo_hub))"
    "Some (t_driver_id (hd demo_trips)) = sql_id (driverId (sock demo_hub))"
    "trip_data_fits demo_trip_data"
    "\<forall>d \<in> set (drivers (db demo_hub)).
        d_id d = t_driver_id (hd demo_trips) \<longrightarrow> d_total_trips d < 2147483647"
    by (simp_all add: demo_defs fits_defs)
  from end_trip_effects[OF this, of 200] show ?thesis
    by (simp add: demo_defs fits_defs)
qed

text \<open>
  The claim as written fails on a distance with more than two decimal places: the end of
  \<open>T1\<close> with \<open>distanceCovered: 8.456\<close> succeeds and stores, and reports, 8.46.
\<close>

theorem end_trip_rounding_counterexample:
  "distanceCovered demo_trip_data_metres = Num 8.456 \<and>
   map t_status (trips (db (handleTripEnd 200 (Some demo_trip_data_metres) demo_hub))) =
     [''completed'', ''scheduled'', ''completed''] \<and>
   map t_distance_covered (trips (db (handleTripEnd 200 (Some demo_trip_data_metres) demo_hub))) =
     [Some 8.46, None, Some 3] \<and>
   emitted (handleTripEnd 200 (Some demo_trip_data_metres) demo_hub) =
     [(ToSelf, Trip_ended (Id ''T1'') (Some 200) (Some 12) (Some 8.46)),
      (ToRoom ''route:R1'', Trip_status_update (Id ''T1'') (Id ''V1'') ''completed'' (Some 200))]"
  by (simp add: demo_defs demo_trip_data_metres_def fits_defs handleTripEnd_def
       update_returning_def to_integer_def to_numeric_def increment_total_trips_def or_zero_def
       emit_def removeDriverSession_def del_def Let_def)

subsection \<open>Location updates that are turned away\<close>

text \<open>
  C3 (as amended). A \<open>location_update\<close> whose latitude or longitude is missing or falsy
  is answered with \<open>Invalid location data\<close>; one with truthy coordinates on a connection
  without a bound vehicle is answered with \<open>No vehicle assigned\<close>. In both cases the hub
  state is otherwise unchanged: no row is written, no key is set, nothing is published
  or fanned out, and no ETA is computed.
\<close>

theorem location_update_rejected:
  "(\<not> truthy_num (latitude ld) \<or> \<not> truthy_num (longitude ld) \<longrightarrow>
      handleLocationUpdate stores_date now (Some ld) h =
        h\<lparr>emitted := emitted h @ [(ToSelf, ErrorEvent ''Invalid location data'')]\<rparr>) \<and>
   (truthy_num (latitude ld) \<and> truthy_num (longitude ld) \<and> \<not> truthy_id (vehicleId (sock h)) \<longrightarrow>
      handleLocationUpdate stores_date now (Some ld) h =
        h\<lparr>emitted := emitted h @ [(ToSelf, ErrorEvent ''No vehicle assigned'')]\<rparr>)"
  by (simp add: handleLocationUpdate_def emit_def)

theorem location_update_rejected_witness:
  "handleLocationUpdate demo_stores_date 200 (Some (demo_fix\<lparr>longitude := Num 0\<rparr>)) demo_hub =
     demo_hub\<lparr>emitted := emitted demo_hub @ [(ToSelf, ErrorEvent ''Invalid location data'')]\<rparr> \<and>
   handleLocationUpdate demo_stores_date 200 (Some demo_fix) demo_no_vehicle =
     demo_no_vehicle\<lparr>emitted := emitted demo_no_vehicle @ [(ToSelf, ErrorEvent ''No vehicle assigned'')]\<rparr>"
  using location_update_rejected[where ld = "demo_fix\<lparr>longitude := Num 0\<rparr>" and now = 200
          and h = demo_hub and stores_date = demo_stores_date]
        location_update_rejected[where ld = demo_fix and now = 200 and h = demo_no_vehicle
          and stores_date = demo_stores_date]
  by (simp add: demo_defs demo_no_vehicle_def)

text \<open>
  The coordinate check comes first: a fix without a latitude on a connection without a
  vehicle is answered with \<open>Invalid location data\<close>, not with \<open>No vehicle assigned\<close>.
\<close>

theorem location_update_precedence_counterexample:
  "vehicleId (sock demo_no_vehicle) = Null \<and>
   emitted demo_no_vehicle = [] \<and>
   emitted (handleLocationUpdate demo_stores_date 200
              (Some (demo_fix\<lparr>latitude := NUndefined\<rparr>)) demo_no_vehicle) =
     [(ToSelf, ErrorEvent ''Invalid location data'')]"
  by (simp add: demo_defs demo_no_vehicle_def handleLocationUpdate_def emit_def)

subsection \<open>Disconnection\<close>

text \<open>
  C7. When the connection of a bound driver closes, the driver's DriverSession key is
  deleted and every driver row of that id gets the status \<open>inactive\<close>; the set of driver
  rows and the whole \<open>trips\<close> table stay as they were, so a trip in progress remains
  \<open>active\<close>. When the connection is not a driver's, the hub state does not change at all.
\<close>

theorem disconnection_effects:
  "(userRole (sock h) = ''driver'' \<and> truthy_id (driverId (sock h)) \<longrightarrow>
      redis_kv (handleDisconnection h) (driver_session_key (driverId (sock h))) = None \<and>
      (\<forall>d \<in> set (drivers (db (handleDisconnection h))).
          Some (d_id d) = sql_id (driverId (sock h)) \<longrightarrow> d_status d = ''inactive'') \<and>
      map d_id (drivers (db (handleDisconnection h))) = map d_id (drivers (db h)) \<and>
      trips (db (handleDisconnection h)) = trips (db h)) \<and>
   (userRole (sock h) \<noteq> ''driver'' \<longrightarrow> handleDisconnection h = h)"
  by (auto simp: handleDisconnection_def removeDriverSession_def del_def Let_def)

theorem disconnection_effects_witness:
  "redis_kv demo_hub ''driver:session:D1'' \<noteq> None \<and>
   redis_kv (handleDisconnection demo_hub) ''driver:session:D1'' = None \<and>
   map d_status (drivers (db (handleDisconnection demo_hub))) = [''inactive'', ''active''] \<and>
   map t_status (trips (db (handleDisconnection demo_hub))) = [''active'', ''scheduled'', ''completed''] \<and>
   handleDisconnection (demo_hub\<lparr>sock := (sock demo_hub)\<lparr>userRole := ''passenger''\<rparr>\<rparr>) =
     demo_hub\<lparr>sock := (sock demo_hub)\<lparr>userRole := ''passenger''\<rparr>\<rparr>"
  using disconnection_effects[of demo_hub]
        disconnection_effects[of "demo_hub\<lparr>sock := (sock demo_hub)\<lparr>userRole := ''passenger''\<rparr>\<rparr>"]
  by (simp add: demo_defs driver_session_key_def handleDisconnection_def removeDriverSession_def del_def)

subsection \<open>Driver without a profile\<close>

text \<open>
  C9. When the driver lookup returns no row, \<open>handleDriverConnection\<close> only sends
  \<open>Driver profile not found\<close>: no DriverSession is written and no listener is registered.
  The connection is left with the \<open>disconnect\<close> listener alone, so any sequence of
  \<open>location_update\<close>, \<open>start_trip\<close>, \<open>end_trip\<close> and \<open>passenger_count_update\<close> events
  leaves the hub state as it is, error replies included.
\<close>

theorem profile_not_found:
  assumes role: "userRole (sock h) = ''driver''"
    and no_profile: "driverQuery (db h) (sql_id (userId (sock h))) = []"
    and fresh: "listeners (sock h) = []"
    and evs: "\<forall>ev \<in> snd ` set evs. driver_event ev"
  shows "handleDriverConnection now h =
           h\<lparr>emitted := emitted h @ [(ToSelf, ErrorEvent ''Driver profile not found'')]\<rparr>
       \<and> connection now h =
           h\<lparr>sock := (sock h)\<lparr>listeners := [''disconnect'']\<rparr>,
             emitted := emitted h @ [(ToSelf, ErrorEvent ''Driver profile not found'')]\<rparr>
       \<and> deliver_all stores_date evs (connection now h) = connection now h"
proof -
  have 1: "handleDriverConnection now h =
           h\<lparr>emitted := emitted h @ [(ToSelf, ErrorEvent ''Driver profile not found'')]\<rparr>"
    using no_profile by (simp add: handleDriverConnection_def emit_def)
  have 2: "connection now h =
           h\<lparr>sock := (sock h)\<lparr>listeners := [''disconnect'']\<rparr>,
             emitted := emitted h @ [(ToSelf, ErrorEvent ''Driver profile not found'')]\<rparr>"
    using role fresh by (simp add: connection_def 1 on_def Let_def)
  have "\<forall>ev \<in> snd ` set evs. event_name ev \<notin> set (listeners (sock (connection now h)))"
    using evs by (auto simp: 2 driver_event_def)
  then have 3: "deliver_all stores_date evs (connection now h) = connection now h"
    by (rule deliver_all_unheard)
  from 1 2 3 show ?thesis by simp
qed

theorem profile_not_found_witness:
  "handleDriverConnection 90 demo_unknown_user =
     demo_unknown_user\<lparr>emitted := emitted demo_unknown_user @
        [(ToSelf, ErrorEvent ''Driver profile not found'')]\<rparr>
   \<and> connection 90 demo_unknown_user =
     demo_unknown_user\<lparr>sock := (sock demo_unknown_user)\<lparr>listeners := [''disconnect'']\<rparr>,
        emitted := emitted demo_unknown_user @ [(ToSelf, ErrorEvent ''Driver profile not found'')]\<rparr>
   \<and> deliver_all demo_stores_date
        [(91, Location_update_msg (Some demo_fix)), (92, Start_trip_msg),
                   (93, Passenger_count_update_msg (Some \<lparr>count = Num 3, stopId = Id ''S1''\<rparr>)),
                   (94, End_trip_msg (Some demo_trip_data))]
        (connection 90 demo_unknown_user) = connection 90 demo_unknown_user"
  by (rule profile_not_found)
     (simp_all add: demo_defs demo_unknown_user_def driverQuery_def driver_event_def)

subsection \<open>Passenger counts\<close>



subsection \<open>ETA batches\<close>

text \<open>
  C5. An ETA computation broadcasts at most one event: an \<open>eta_update\<close> to the
  \<open>passengers\<close> group holding one entry per row of the stops query, in the order of the
  rows, and only when a trip is bound and the query returns a row; otherwise nothing is
  emitted. The query returns at most 5 rows, in ascending stop order, and the stop order
  of each row is above the stop order of every route stop whose bus stop the trip has a
  recorded arrival at.
\<close>

theorem eta_batch:
  "emitted (calculateAndEmitETAs now loc h) =
     emitted h @
       (if truthy_id (tripId (sock h)) \<and> stopsQuery (db h) (sql_id (tripId (sock h))) \<noteq> []
        then [(ToRoom ''passengers'',
               Eta_update (vehicleId (sock h)) (tripId (sock h))
                 (map (eta_entry loc) (stopsQuery (db h) (sql_id (tripId (sock h))))))]
        else [])
   \<and> length (stopsQuery (db h) tid) \<le> 5
   \<and> sorted (map sr_stop_order (stopsQuery (db h) tid))
   \<and> (\<forall>r \<in> set (stopsQuery (db h) tid).
        \<forall>ts \<in> set (trip_stops (db h)). \<forall>rs2 \<in> set (route_stops (db h)).
          Some (ts_trip_id ts) = tid \<and> ts_actual_arrival ts \<noteq> None \<and>
          rs_bus_stop_id rs2 = ts_bus_stop_id ts \<longrightarrow> rs_stop_order rs2 < sr_stop_order r)"
proof (intro conjI ballI impI)
  show "length (stopsQuery (db h) tid) \<le> 5"
    by (simp add: stopsQuery_def)
  show "sorted (map sr_stop_order (stopsQuery (db h) tid))"
    by (rule stopsQuery_sorted)
next
  fix r ts rs2
  assume r: "r \<in> set (stopsQuery (db h) tid)"
    and ts: "ts \<in> set (trip_stops (db h))" and rs2: "rs2 \<in> set (route_stops (db h))"
    and arrived: "Some (ts_trip_id ts) = tid \<and> ts_actual_arrival ts \<noteq> None \<and>
          rs_bus_stop_id rs2 = ts_bus_stop_id ts"
  from ts rs2 arrived have "rs_stop_order rs2 \<in> set (arrivedOrders (db h) tid)"
    by (intro arrivedOrders_mem[of ts]) auto
  then have "rs_stop_order rs2 \<le> coalesce (sql_max (arrivedOrders (db h) tid)) 0"
    by (rule sql_max_upper)
  also have "\<dots> < sr_stop_order r"
    using r by (rule stopsQuery_above_threshold)
  finally show "rs_stop_order rs2 < sr_stop_order r" .
qed (rule calculateAndEmitETAs_emitted)

text \<open>
  Trip \<open>T1\<close> has reached \<open>S1\<close>: the batch holds the next five of the six stops left, in
  order. A connection bound to a trip that is not in the catalog emits nothing.
\<close>

theorem eta_batch_witness:
  "map sr_id (stopsQuery demo_catalog (Some ''T1'')) = [''S2'', ''S3'', ''S4'', ''S5'', ''S6''] \<and>
   map sr_stop_order (stopsQuery demo_catalog (Some ''T1'')) = [2, 3, 4, 5, 6] \<and>
   emitted (calculateAndEmitETAs 200 (Num 30.30, Num 78.03) demo_hub) =
     [(ToRoom ''passengers'',
       Eta_update (Id ''V1'') (Id ''T1'')
         (map (eta_entry (Num 30.30, Num 78.03)) (stopsQuery demo_catalog (Some ''T1''))))] \<and>
   emitted (calculateAndEmitETAs 200 (Num 30.30, Num 78.03) (demo_bound_to ''T9'')) = []"
  using eta_batch[of 200 "(Num 30.30, Num 78.03)" demo_hub "Some ''T1''"]
        eta_batch[of 200 "(Num 30.30, Num 78.03)" "demo_bound_to ''T9''" "Some ''T9''"]
  by (simp add: demo_defs stopsQuery_def arrivedOrders_def coalesce_def)

subsection \<open>Zero-valued speed, heading and accuracy\<close>



subsection \<open>ETA and distance of a candidate stop\<close>

text \<open>
  C6. With numbers idealised as reals: for a fix at \<open>(lat, lon)\<close>, the entry reported for
  a candidate stop carries the ETA \<open>round (d / 30 * 60)\<close> minutes and the distance
  \<open>round (d * 100) / 100\<close>, where \<open>d\<close> is the haversine great-circle distance (Earth
  radius 6371 km) between the fix and the stop, and the broadcast batch consists of
  exactly these entries. For two identical coordinate pairs the distance is 0, and a fix
  at the stop itself is reported with ETA 0 and distance 0.
\<close>

theorem eta_from_haversine:
  "eta_entry (Num lat, Num lon) stop =
     \<lparr>eu_stopId = sr_id stop, eu_stopName = sr_name stop,
      eu_eta = Some (Math_round
                 (spec_haversine_km lat lon (sr_latitude stop) (sr_longitude stop) / 30 * 60)),
      eu_distance = Some (real_of_int (Math_round
                 (spec_haversine_km lat lon (sr_latitude stop) (sr_longitude stop) * 100)) / 100)\<rparr>
   \<and> emitted (calculateAndEmitETAs now (Num lat, Num lon) h) =
       emitted h @
         (if truthy_id (tripId (sock h)) \<and> stopsQuery (db h) (sql_id (tripId (sock h))) \<noteq> []
          then [(ToRoom ''passengers'',
                 Eta_update (vehicleId (sock h)) (tripId (sock h))
                   (map (eta_entry (Num lat, Num lon))
                        (stopsQuery (db h) (sql_id (tripId (sock h))))))]
          else [])
   \<and> calculateDistance lat lon lat lon = 0
   \<and> spec_haversine_km lat lon lat lon = 0
   \<and> eu_eta (eta_entry (Num (sr_latitude stop), Num (sr_longitude stop)) stop) = Some 0
   \<and> eu_distance (eta_entry (Num (sr_latitude stop), Num (sr_longitude stop)) stop) = Some 0"
proof -
  have same: "spec_haversine_km x y x y = 0" for x y
    using calculateDistance_same_point[of x y] by (simp add: calculateDistance_haversine)
  show ?thesis
    by (simp add: eta_entry_def distance_to_def calculateDistance_haversine same
        calculateDistance_same_point Math_round_def Let_def calculateAndEmitETAs_emitted)
qed

end
